theory Spec2Isabelle
  imports Complex_Main "HOL-Library.AList"
begin

section \<open>Data model of \<open>analysis.py\<close>\<close>

text \<open>
  The Python exceptions the modelled functions can raise. Python numbers and the
  columns of the tables are modelled as reals; the float64 values that numpy computes
  in \<open>calculate_speed_of_crossing\<close> have a type of their own, \<open>np_float\<close>, below.
\<close>

datatype py_error =
    IndexError | KeyError | ValueError | ZeroDivisionError
  | UnboundLocalError | NameError | AttributeError

text \<open>
  One row of a detection table (a CSV file of one video segment). A table read by
  \<open>pd.read_csv\<close> has the index labels \<open>0, 1, 2, ...\<close>, so a table is the list of its
  rows and the label of a row is its position.
\<close>

record detection =
  YOLO_id :: int
  Unique_Id :: int
  X_center :: real
  Height :: real

type_synonym dataframe = "detection list"

text \<open>A Python \<open>dict\<close>: an association list in insertion order, with \<open>map_of\<close> as the
  lookup and \<open>AList.update\<close> as the assignment \<open>d[k] = v\<close>.\<close>

type_synonym ('k, 'v) dict = "('k \<times> 'v) list"

subsection \<open>Crossing detector\<close>

text \<open>\<open>Series.unique()\<close>: the distinct values in order of first appearance.\<close>

definition unique :: "'a list \<Rightarrow> 'a list" where
  "unique xs = rev (remdups (rev xs))"

text \<open>The predicate of \<open>groupby("Unique Id").filter\<close>, applied to the rows of one group.\<close>

definition touches_both :: "real \<Rightarrow> real \<Rightarrow> detection list \<Rightarrow> bool" where
  "touches_both min_x max_x x =
     (list_ex (\<lambda>r. X_center r \<le> min_x) x \<and> list_ex (\<lambda>r. X_center r \<ge> max_x) x)"

definition pedestrian_crossing :: "dataframe \<Rightarrow> real \<Rightarrow> real \<Rightarrow> int \<Rightarrow> nat \<times> int list" where
  "pedestrian_crossing dataframe min_x max_x person_id =
     (let crossed_ids = filter (\<lambda>r. YOLO_id r = person_id) dataframe;
          filtered_crossed_ids =
            filter (\<lambda>r. touches_both min_x max_x
                       (filter (\<lambda>r'. Unique_Id r' = Unique_Id r) crossed_ids)) crossed_ids;
          crossed_ids' = unique (map Unique_Id filtered_crossed_ids)
      in (length crossed_ids', crossed_ids'))"

text \<open>The track of an identity within an object class: its rows, in row order.\<close>

definition track :: "dataframe \<Rightarrow> int \<Rightarrow> int \<Rightarrow> detection list" where
  "track dataframe person_id u =
     filter (\<lambda>r. YOLO_id r = person_id \<and> Unique_Id r = u) dataframe"

subsection \<open>Mapping index\<close>

text \<open>
  One row of the mapping table. The list-valued columns are held as the lists the
  source parses them into: \<open>videos\<close> after \<open>strip("[]").split(',')\<close> and the strip of
  every element, the others after \<open>ast.literal_eval\<close>. A missing \<open>state\<close>
  (\<open>pd.isna\<close>) is \<open>None\<close>. The scalar columns come out of \<open>iterrows\<close> as Python numbers.
\<close>

record mapping_row =
  videos :: "string list"
  start_time :: "int list list"
  end_time :: "int list list"
  time_of_day :: "int list list"
  city :: string
  state :: "string option"
  country :: string
  gdp_city :: real
  population_city :: real
  population_country :: real
  traffic_mortality :: real
  continent :: string
  literacy_rate :: real
  avg_height :: real
  ISO_country :: string
  fps_list :: "real list"

text \<open>
  The tuple \<open>find_values_with_video_id\<close> returns; the fields carry the names its callers
  unpack it into. \<open>r_population\<close> is the column \<open>population_city\<close>.
\<close>

record segment_info =
  r_video :: string
  r_start :: int
  r_end :: int
  r_time_of_day :: int
  r_city :: string
  r_state :: string
  r_country :: string
  r_gdp :: real
  r_population :: real
  r_population_country :: real
  r_traffic_mortality :: real
  r_continent :: string
  r_literacy_rate :: real
  r_avg_height :: real
  r_iso_country :: string
  r_fps :: real

text \<open>\<open>key.rsplit("_", 1)\<close>: split at the last underscore, if there is one.\<close>

definition rsplit_underscore :: "string \<Rightarrow> string list" where
  "rsplit_underscore key =
     (if CHR ''_'' \<in> set key
      then [rev (tl (dropWhile (\<lambda>c. c \<noteq> CHR ''_'') (rev key))),
            rev (takeWhile (\<lambda>c. c \<noteq> CHR ''_'') (rev key))]
      else [key])"

text \<open>
  \<open>int(s)\<close> on a string without underscores. A \<open>char\<close> stands for a code point below
  256. \<open>int\<close> skips white space at both ends: the C \<open>isspace\<close> characters, and the code
  points \<open>0x85\<close> and \<open>0xA0\<close>, which it turns into blanks first; the separators
  \<open>0x1C\<close> to \<open>0x1F\<close> are not skipped. Then come an optional sign and a non-empty run
  of decimal digits; anything else raises \<open>ValueError\<close> (\<open>None\<close>). The limit that some
  Python versions put on the number of digits is not modelled.
\<close>

definition py_space :: "char \<Rightarrow> bool" where
  "py_space c = (c \<in> set [CHR '' '', CHR 0x09, CHR 0x0A, CHR 0x0B, CHR 0x0C, CHR 0x0D,
                           CHR 0x85, CHR 0xA0])"

definition py_strip :: "string \<Rightarrow> string" where
  "py_strip s = rev (dropWhile py_space (rev (dropWhile py_space s)))"

definition digit_of :: "char \<Rightarrow> nat option" where
  "digit_of c = map_of (zip ''0123456789'' [0, 1, 2, 3, 4, 5, 6, 7, 8, 9]) c"

fun digits_value :: "nat \<Rightarrow> string \<Rightarrow> nat option" where
  "digits_value acc [] = Some acc"
| "digits_value acc (c # cs) =
     (case digit_of c of None \<Rightarrow> None | Some d \<Rightarrow> digits_value (10 * acc + d) cs)"

definition py_int :: "string \<Rightarrow> int option" where
  "py_int s =
     (let t = py_strip s;
          neg = (t \<noteq> [] \<and> hd t = CHR ''-'');
          ds = (if t \<noteq> [] \<and> (hd t = CHR ''-'' \<or> hd t = CHR ''+'') then tl t else t)
      in if ds = [] then None
         else (case digits_value 0 ds of
                 None \<Rightarrow> None
               | Some n \<Rightarrow> Some (if neg then - int n else int n)))"

text \<open>The inner loop \<open>for s in start\<close>: the matching start time and its position.\<close>

fun match_start :: "string \<Rightarrow> int list \<Rightarrow> nat \<Rightarrow> py_error + (int \<times> nat) option" where
  "match_start start_s [] counter = Inr None"
| "match_start start_s (s # rest) counter =
     (case py_int start_s of
        None \<Rightarrow> Inl ValueError
      | Some n \<Rightarrow>
          if n = s then Inr (Some (s, counter))
          else match_start start_s rest (counter + 1))"

text \<open>Building the returned tuple: \<open>end[counter]\<close>, \<open>time_of_day_[counter]\<close> and
  \<open>gdp/population\<close> can raise.\<close>

definition found :: "mapping_row \<Rightarrow> string \<Rightarrow> int \<Rightarrow> int list \<Rightarrow> int list \<Rightarrow> real \<Rightarrow> nat
    \<Rightarrow> py_error + segment_info" where
  "found row video s end_l time_of_day_l fps counter =
     (if length end_l \<le> counter then Inl IndexError
      else if length time_of_day_l \<le> counter then Inl IndexError
      else if population_city row = 0 then Inl ZeroDivisionError
      else Inr \<lparr> r_video = video, r_start = s, r_end = end_l ! counter,
                 r_time_of_day = time_of_day_l ! counter, r_city = city row,
                 r_state = (case state row of None \<Rightarrow> ''unknown'' | Some st \<Rightarrow> st),
                 r_country = country row,
                 r_gdp = gdp_city row / population_city row,
                 r_population = population_city row,
                 r_population_country = population_country row,
                 r_traffic_mortality = traffic_mortality row,
                 r_continent = continent row, r_literacy_rate = literacy_rate row,
                 r_avg_height = avg_height row, r_iso_country = ISO_country row,
                 r_fps = fps \<rparr>)"

text \<open>The loop over the zipped per-video lists of one row.\<close>

fun match_video :: "mapping_row \<Rightarrow> string \<Rightarrow> string
    \<Rightarrow> (string \<times> int list \<times> int list \<times> int list \<times> real) list
    \<Rightarrow> py_error + segment_info option" where
  "match_video row id' start_s [] = Inr None"
| "match_video row id' start_s ((video, start, end_l, time_of_day_l, fps) # rest) =
     (if video = id' then
        (case match_start start_s start 0 of
           Inl e \<Rightarrow> Inl e
         | Inr (Some (s, counter)) \<Rightarrow>
             (case found row video s end_l time_of_day_l fps counter of
                Inl e \<Rightarrow> Inl e
              | Inr r \<Rightarrow> Inr (Some r))
         | Inr None \<Rightarrow> match_video row id' start_s rest)
      else match_video row id' start_s rest)"

text \<open>The loop over the rows of the mapping table; falling off its end returns \<open>None\<close>.\<close>

fun match_rows :: "mapping_row list \<Rightarrow> string \<Rightarrow> string \<Rightarrow> py_error + segment_info option" where
  "match_rows [] id' start_s = Inr None"
| "match_rows (row # rows) id' start_s =
     (case match_video row id' start_s
             (zip (videos row) (zip (start_time row) (zip (end_time row)
                (zip (time_of_day row) (fps_list row))))) of
        Inl e \<Rightarrow> Inl e
      | Inr (Some r) \<Rightarrow> Inr (Some r)
      | Inr None \<Rightarrow> match_rows rows id' start_s)"

definition find_values_with_video_id :: "mapping_row list \<Rightarrow> string
    \<Rightarrow> py_error + segment_info option" where
  "find_values_with_video_id df key =
     (case rsplit_underscore key of
        [id', start_s] \<Rightarrow> match_rows df id' start_s
      | _ \<Rightarrow> Inl ValueError)"

text \<open>\<open>str\<close> of an integer, and the aggregate key \<open>f'{city}_{state}_{condition}'\<close>.\<close>

function str_nat :: "nat \<Rightarrow> string" where
  "str_nat n = (if n < 10 then [''0123456789'' ! n]
                else str_nat (n div 10) @ [''0123456789'' ! (n mod 10)])"
  by pat_completeness auto
termination
  by (relation "measure id") auto

declare str_nat.simps [simp del]

definition str_int :: "int \<Rightarrow> string" where
  "str_int i = (if i < 0 then CHR ''-'' # str_nat (nat (- i)) else str_nat (nat i))"

definition agg_key :: "segment_info \<Rightarrow> string" where
  "agg_key r = r_city r @ ''_'' @ r_state r @ ''_'' @ str_int (r_time_of_day r)"

subsection \<open>Event metrics: time to cross\<close>

text \<open>The rows of a table with their index labels.\<close>

definition indexed :: "dataframe \<Rightarrow> (nat \<times> detection) list" where
  "indexed dataframe = zip [0..<length dataframe] dataframe"

text \<open>\<open>Series.min()\<close> and \<open>Series.max()\<close> of a non-empty column.\<close>

definition series_min :: "real list \<Rightarrow> real" where
  "series_min xs = fold min (tl xs) (hd xs)"

definition series_max :: "real list \<Rightarrow> real" where
  "series_max xs = fold max (tl xs) (hd xs)"

text \<open>
  The walk \<open>for value in sorted_grp['X-center']\<close> from extreme \<open>a\<close> to extreme \<open>b\<close>:
  the flag is raised at the first row equal to \<open>a\<close>, rows are counted from there, and
  the loop breaks with the count at the first counted row equal to \<open>b\<close>. \<open>None\<close>: the
  loop ran out without reaching \<open>b\<close>, nothing is stored.
\<close>

fun walk :: "real \<Rightarrow> real \<Rightarrow> real list \<Rightarrow> nat \<Rightarrow> bool \<Rightarrow> nat option" where
  "walk a b [] count flag = None"
| "walk a b (v # vs) count flag =
     (if flag \<or> v = a then
        (if v = b then Some (count + 1) else walk a b vs (count + 1) True)
      else walk a b vs count False)"

text \<open>The body of \<open>for id in ids\<close> up to the \<open>break\<close>: \<open>.index[0]\<close> raises on an identity
  with no row.\<close>

definition rows_to_cross :: "dataframe \<Rightarrow> int \<Rightarrow> py_error + nat option" where
  "rows_to_cross dataframe id' =
     (let sorted_grp = filter (\<lambda>(i, r). Unique_Id r = id') (indexed dataframe);
          xs = map (\<lambda>(i, r). X_center r) sorted_grp
      in if sorted_grp = [] then Inl IndexError
         else
           (let x_min = series_min xs;
                x_max = series_max xs;
                x_min_index = fst (hd (filter (\<lambda>(i, r). X_center r = x_min) sorted_grp));
                x_max_index = fst (hd (filter (\<lambda>(i, r). X_center r = x_max) sorted_grp))
            in if x_min_index < x_max_index then Inr (walk x_min x_max xs 0 False)
               else Inr (walk x_max x_min xs 0 False)))"

text \<open>
  The loop over \<open>ids\<close>. \<open>fps\<close> is a local variable that is bound only when the lookup
  found the segment (\<open>None\<close>: unbound); it is read at \<open>var[id] = count/fps\<close>.
\<close>

fun time_to_cross_loop :: "dataframe \<Rightarrow> real option \<Rightarrow> int list \<Rightarrow> (int, real) dict
    \<Rightarrow> py_error + (int, real) dict" where
  "time_to_cross_loop dataframe fps [] var = Inr var"
| "time_to_cross_loop dataframe fps (id' # ids) var =
     (case rows_to_cross dataframe id' of
        Inl e \<Rightarrow> Inl e
      | Inr None \<Rightarrow> time_to_cross_loop dataframe fps ids var
      | Inr (Some count) \<Rightarrow>
          (case fps of
             None \<Rightarrow> Inl UnboundLocalError
           | Some f \<Rightarrow>
               if f = 0 then Inl ZeroDivisionError
               else time_to_cross_loop dataframe fps ids
                      (AList.update id' (real count / f) var)))"

text \<open>\<open>df_mapping\<close> is the module-level mapping table the function reads.\<close>

definition time_to_cross :: "mapping_row list \<Rightarrow> dataframe \<Rightarrow> int list \<Rightarrow> string
    \<Rightarrow> py_error + (int, real) dict" where
  "time_to_cross df_mapping dataframe ids video_id =
     (case find_values_with_video_id df_mapping video_id of
        Inl e \<Rightarrow> Inl e
      | Inr result \<Rightarrow> time_to_cross_loop dataframe (map_option r_fps result) ids [])"

text \<open>
  The claim's reading of the walk, in its own words: the position of the first row
  holding a value, and the number of rows from the first-occurring extreme up to and
  including the first row of the opposite extreme.
\<close>

definition first_index :: "'a \<Rightarrow> 'a list \<Rightarrow> nat" where
  "first_index v xs = length (takeWhile (\<lambda>x. x \<noteq> v) xs)"

definition rows_walked :: "real list \<Rightarrow> nat" where
  "rows_walked xs =
     (let i_min = first_index (Min (set xs)) xs;
          i_max = first_index (Max (set xs)) xs
      in if i_min < i_max then i_max - i_min + 1 else i_min - i_max + 1)"

subsection \<open>Event metrics: speed of crossing\<close>

text \<open>\<open>Series.mean()\<close> of a non-empty column.\<close>

definition mean :: "real list \<Rightarrow> real" where
  "mean xs = sum_list xs / real (length xs)"

text \<open>
  A float64 value as numpy computes it: a finite number (\<open>Num 0\<close> is \<open>+0.0\<close>), the
  negative zero, the two infinities, or \<open>nan\<close>.
\<close>

datatype np_float = Num real | NegZero | PosInf | NegInf | NaN

fun is_zero :: "np_float \<Rightarrow> bool" where
  "is_zero (Num x) = (x = 0)"
| "is_zero NegZero = True"
| "is_zero PosInf = False"
| "is_zero NegInf = False"
| "is_zero NaN = False"

fun is_inf :: "np_float \<Rightarrow> bool" where
  "is_inf (Num x) = False"
| "is_inf NegZero = False"
| "is_inf PosInf = True"
| "is_inf NegInf = True"
| "is_inf NaN = False"

fun sign_bit :: "np_float \<Rightarrow> bool" where
  "sign_bit (Num x) = (x < 0)"
| "sign_bit NegZero = True"
| "sign_bit PosInf = False"
| "sign_bit NegInf = True"
| "sign_bit NaN = False"

fun np_val :: "np_float \<Rightarrow> real" where
  "np_val (Num x) = x"
| "np_val NegZero = 0"
| "np_val PosInf = 0"
| "np_val NegInf = 0"
| "np_val NaN = 0"

definition signed_zero :: "bool \<Rightarrow> np_float" where
  "signed_zero negative = (if negative then NegZero else Num 0)"

definition signed_inf :: "bool \<Rightarrow> np_float" where
  "signed_inf negative = (if negative then NegInf else PosInf)"

text \<open>
  What the model does not compute is the rounding. It is a parameter: \<open>rnd x\<close> is the
  float64 result for the exact non-zero result \<open>x\<close> of one operation (an infinity on
  overflow, a zero on underflow), and \<open>col_sum xs\<close> is \<open>values.sum()\<close> of a float64
  column, whose order of additions numpy chooses. The theorems hold for every such
  pair, so for the arithmetic of numpy too.
\<close>

record np_arith =
  rnd :: "real \<Rightarrow> np_float"
  col_sum :: "real list \<Rightarrow> np_float"

text \<open>
  Division and addition of float64 values. Neither raises: a zero divisor gives an
  infinity, and \<open>0/0\<close>, \<open>inf/inf\<close> and \<open>inf - inf\<close> give \<open>nan\<close>, which every operation
  passes on.
\<close>

definition np_div :: "np_arith \<Rightarrow> np_float \<Rightarrow> np_float \<Rightarrow> np_float" where
  "np_div A a b =
     (if a = NaN \<or> b = NaN then NaN
      else if is_inf a then
        (if is_inf b then NaN else signed_inf (sign_bit a \<noteq> sign_bit b))
      else if is_inf b then signed_zero (sign_bit a \<noteq> sign_bit b)
      else if is_zero b then
        (if is_zero a then NaN else signed_inf (sign_bit a \<noteq> sign_bit b))
      else if is_zero a then signed_zero (sign_bit a \<noteq> sign_bit b)
      else rnd A (np_val a / np_val b))"

definition np_add :: "np_arith \<Rightarrow> np_float \<Rightarrow> np_float \<Rightarrow> np_float" where
  "np_add A a b =
     (if a = NaN \<or> b = NaN then NaN
      else if is_inf a then
        (if is_inf b \<and> sign_bit a \<noteq> sign_bit b then NaN else a)
      else if is_inf b then b
      else if is_zero a \<and> is_zero b then signed_zero (sign_bit a \<and> sign_bit b)
      else if is_zero a then b
      else if is_zero b then a
      else if np_val a + np_val b = 0 then Num 0
      else rnd A (np_val a + np_val b))"

text \<open>
  The comparisons \<open>a > b\<close> and \<open>a <= b\<close> of float64 values: both are false when one side is
  \<open>nan\<close>, and the two zeros are equal.
\<close>

fun level :: "np_float \<Rightarrow> int" where
  "level (Num x) = 0"
| "level NegZero = 0"
| "level PosInf = 1"
| "level NegInf = - 1"
| "level NaN = 0"

definition np_gt :: "np_float \<Rightarrow> np_float \<Rightarrow> bool" where
  "np_gt a b = (a \<noteq> NaN \<and> b \<noteq> NaN
                \<and> (level b < level a \<or> (level a = 0 \<and> level b = 0 \<and> np_val b < np_val a)))"


text \<open>The float64 value that the literal \<open>1.2\<close> of the source denotes: the nearest one
  to 1.2, a little below it.\<close>

definition speed_limit :: real where
  "speed_limit = 5404319552844595 / 4503599627370496"

text \<open>
  The speed of one crossing event. \<open>get_group\<close> raises \<open>KeyError\<close> on an identity with
  no row. \<open>mean_height\<close> is a float64 value, the sum of the column divided by the
  count, and so is everything computed from it; \<open>avg_height\<close> and \<open>time\<close> are Python
  numbers. The difference of the two extremes is \<open>+0.0\<close> when they are equal.
\<close>

definition crossing_speed :: "np_arith \<Rightarrow> dataframe \<Rightarrow> real \<Rightarrow> int \<Rightarrow> real
    \<Rightarrow> py_error + np_float" where
  "crossing_speed A value avg_height' id' time =
     (let grouped_with_id = filter (\<lambda>r. Unique_Id r = id') value
      in if grouped_with_id = [] then Inl KeyError
         else
           (let mean_height = np_div A (col_sum A (map Height grouped_with_id))
                                (Num (real (length grouped_with_id)));
                min_x_center = series_min (map X_center grouped_with_id);
                max_x_center = series_max (map X_center grouped_with_id);
                ppm = np_div A mean_height (Num avg_height');
                distance = np_div A
                             (if max_x_center = min_x_center then Num 0
                              else rnd A (max_x_center - min_x_center))
                             ppm
            in Inr (np_div A (np_div A distance (Num time)) (Num 100))))"

text \<open>\<open>d[k].append(v)\<close> when \<open>k\<close> is in \<open>d\<close>, else \<open>d[k] = [v]\<close>.\<close>

definition append_value :: "string \<Rightarrow> 'a \<Rightarrow> (string, 'a list) dict \<Rightarrow> (string, 'a list) dict" where
  "append_value k v d =
     (case map_of d k of
        Some vs \<Rightarrow> AList.update k (vs @ [v]) d
      | None \<Rightarrow> AList.update k [v] d)"

text \<open>The loop \<open>for id, time in df.items()\<close> of one segment, with the test
  \<open>if speed_ > 1.2: continue\<close>.\<close>

fun speed_loop :: "np_arith \<Rightarrow> dataframe \<Rightarrow> segment_info \<Rightarrow> (int \<times> real) list
    \<Rightarrow> (string, np_float list) dict \<Rightarrow> py_error + (string, np_float list) dict" where
  "speed_loop A value r [] speed_dict = Inr speed_dict"
| "speed_loop A value r ((id', time) # rest) speed_dict =
     (case crossing_speed A value (r_avg_height r) id' time of
        Inl e \<Rightarrow> Inl e
      | Inr speed \<Rightarrow>
          if np_gt speed (Num speed_limit) then speed_loop A value r rest speed_dict
          else speed_loop A value r rest (append_value (agg_key r) speed speed_dict))"

text \<open>The loop \<open>for key, df in data.items()\<close>; \<open>dfs.get(key)\<close> is \<open>None\<close> for a key
  without a table, and \<open>None.groupby\<close> raises \<open>AttributeError\<close>.\<close>

fun calculate_speed_loop :: "np_arith \<Rightarrow> mapping_row list \<Rightarrow> (string, dataframe) dict
    \<Rightarrow> (string \<times> (int, real) dict) list \<Rightarrow> (string, np_float list) dict
    \<Rightarrow> py_error + (string, np_float list) dict" where
  "calculate_speed_loop A df_mapping dfs [] speed_dict = Inr speed_dict"
| "calculate_speed_loop A df_mapping dfs ((key, df) # rest) speed_dict =
     (if df = [] then calculate_speed_loop A df_mapping dfs rest speed_dict
      else
        (case find_values_with_video_id df_mapping key of
           Inl e \<Rightarrow> Inl e
         | Inr None \<Rightarrow> calculate_speed_loop A df_mapping dfs rest speed_dict
         | Inr (Some r) \<Rightarrow>
             (case map_of dfs key of
                None \<Rightarrow> Inl AttributeError
              | Some value \<Rightarrow>
                  (case speed_loop A value r df speed_dict of
                     Inl e \<Rightarrow> Inl e
                   | Inr speed_dict' \<Rightarrow>
                       calculate_speed_loop A df_mapping dfs rest speed_dict'))))"

definition calculate_speed_of_crossing :: "np_arith \<Rightarrow> mapping_row list
    \<Rightarrow> (string, dataframe) dict \<Rightarrow> (string, (int, real) dict) dict
    \<Rightarrow> py_error + (string, np_float list) dict" where
  "calculate_speed_of_crossing A df_mapping dfs data =
     calculate_speed_loop A df_mapping dfs data []"

text \<open>The comprehension \<open>{key: sum(values) / len(values) for key, values in d.items()}\<close>
  over lists of Python floats.\<close>

fun avg_values :: "(string \<times> real list) list \<Rightarrow> py_error + (string, real) dict" where
  "avg_values [] = Inr []"
| "avg_values ((key, values) # rest) =
     (if length values = 0 then Inl ZeroDivisionError
      else (case avg_values rest of
              Inl e \<Rightarrow> Inl e
            | Inr d \<Rightarrow> Inr ((key, sum_list values / real (length values)) # d)))"

text \<open>
  The same comprehension over lists of float64 values: \<open>sum\<close> adds them from the left
  to the integer 0, and the division by the length raises only for the empty list,
  where it is the Python division \<open>0 / 0\<close>.
\<close>

fun avg_speed_values :: "np_arith \<Rightarrow> (string \<times> np_float list) list
    \<Rightarrow> py_error + (string, np_float) dict" where
  "avg_speed_values A [] = Inr []"
| "avg_speed_values A ((key, values) # rest) =
     (if length values = 0 then Inl ZeroDivisionError
      else (case avg_speed_values A rest of
              Inl e \<Rightarrow> Inl e
            | Inr d \<Rightarrow>
                Inr ((key, np_div A (foldl (np_add A) (Num 0) values)
                             (Num (real (length values)))) # d)))"

definition avg_speed_of_crossing :: "np_arith \<Rightarrow> mapping_row list \<Rightarrow> (string, dataframe) dict
    \<Rightarrow> (string, (int, real) dict) dict \<Rightarrow> py_error + (string, np_float) dict" where
  "avg_speed_of_crossing A df_mapping dfs data =
     (case calculate_speed_of_crossing A df_mapping dfs data of
        Inl e \<Rightarrow> Inl e
      | Inr speed_array \<Rightarrow> avg_speed_values A speed_array)"

subsection \<open>Event metrics: start of crossing\<close>

text \<open>\<open>range(0, n - 10, 10)\<close> for a sequence of length \<open>n\<close>.\<close>

definition strides :: "nat \<Rightarrow> nat list" where
  "strides n = filter (\<lambda>i. i mod 10 = 0) [0..<n - 10]"

text \<open>
  The stride loop of one track. \<open>None\<close>: the loop ran out without the \<open>break\<close>, nothing
  is stored in \<open>data_cross\<close>. Every index it reads is below the length of \<open>x_values\<close>.
\<close>

fun stride_scan :: "real \<Rightarrow> real list \<Rightarrow> real \<Rightarrow> nat list \<Rightarrow> nat \<Rightarrow> bool \<Rightarrow> nat option" where
  "stride_scan initial_x x_values margin [] consecutive_frame flag = None"
| "stride_scan initial_x x_values margin (i # rest) consecutive_frame flag =
     (if initial_x < 0.5 then
        (if x_values ! i - margin \<le> x_values ! (i + 10)
              \<and> x_values ! (i + 10) \<le> x_values ! i + margin
         then stride_scan initial_x x_values margin rest (consecutive_frame + 1)
                (flag \<or> consecutive_frame + 1 = 3)
         else if flag then Some consecutive_frame
         else stride_scan initial_x x_values margin rest 0 flag)
      else
        (if x_values ! i - margin \<ge> x_values ! (i + 10)
              \<and> x_values ! (i + 10) \<ge> x_values ! i + margin
         then stride_scan initial_x x_values margin rest (consecutive_frame + 1)
                (flag \<or> consecutive_frame + 1 = 3)
         else if flag then Some consecutive_frame
         else stride_scan initial_x x_values margin rest 0 flag))"

text \<open>The body of \<open>for unique_id, group_data in crossed_ids_grouped\<close>; a group is never
  empty.\<close>

definition start_of_crossing :: "detection list \<Rightarrow> nat option" where
  "start_of_crossing group_data =
     (let x_values = map X_center group_data;
          initial_x = hd x_values;
          mean_height = mean (map Height group_data);
          margin = 0.1 * mean_height
      in stride_scan initial_x x_values margin (strides (length x_values)) 0 False)"

text \<open>\<open>data_cross\<close> of one segment: \<open>groupby\<close> visits the identities in increasing order,
  each once.\<close>

definition data_cross_of :: "dataframe \<Rightarrow> int \<Rightarrow> (int, nat) dict" where
  "data_cross_of df person_id =
     (let crossed_ids = filter (\<lambda>r. YOLO_id r = person_id) df
      in List.map_filter
           (\<lambda>unique_id.
              map_option (Pair unique_id)
                (start_of_crossing (filter (\<lambda>r. Unique_Id r = unique_id) crossed_ids)))
           (sort (remdups (map Unique_Id crossed_ids))))"

text \<open>\<open>d[k].extend(vs)\<close> when \<open>k\<close> is in \<open>d\<close>, else \<open>d[k] = vs\<close>.\<close>

definition extend_values :: "string \<Rightarrow> real list \<Rightarrow> (string, real list) dict
    \<Rightarrow> (string, real list) dict" where
  "extend_values k vs d =
     (case map_of d k of
        Some old \<Rightarrow> AList.update k (old @ vs) d
      | None \<Rightarrow> AList.update k vs d)"

fun time_to_start_cross_loop :: "mapping_row list \<Rightarrow> int \<Rightarrow> (string \<times> dataframe) list
    \<Rightarrow> (string, real list) dict \<Rightarrow> py_error + (string, real list) dict" where
  "time_to_start_cross_loop df_mapping person_id [] time_dict = Inr time_dict"
| "time_to_start_cross_loop df_mapping person_id ((key, df) # rest) time_dict =
     (case find_values_with_video_id df_mapping key of
        Inl e \<Rightarrow> Inl e
      | Inr None \<Rightarrow> time_to_start_cross_loop df_mapping person_id rest time_dict
      | Inr (Some r) \<Rightarrow>
          (let data_cross = data_cross_of df person_id
           in if length data_cross = 0
              then time_to_start_cross_loop df_mapping person_id rest time_dict
              else if r_fps r / 10 = 0 then Inl ZeroDivisionError
              else time_to_start_cross_loop df_mapping person_id rest
                     (extend_values (agg_key r)
                        (map (\<lambda>(key', value). real value / (r_fps r / 10)) data_cross)
                        time_dict)))"

text \<open>\<open>data\<close> is a parameter the function never reads; \<open>person_id\<close> defaults to \<open>0\<close>.\<close>

definition time_to_start_cross :: "mapping_row list \<Rightarrow> (string, dataframe) dict \<Rightarrow> int
    \<Rightarrow> py_error + (string, real list) dict" where
  "time_to_start_cross df_mapping dfs person_id =
     time_to_start_cross_loop df_mapping person_id dfs []"

definition avg_time_to_start_cross :: "mapping_row list \<Rightarrow> (string, dataframe) dict
    \<Rightarrow> py_error + (string, real) dict" where
  "avg_time_to_start_cross df_mapping dfs =
     (case time_to_start_cross df_mapping dfs 0 of
        Inl e \<Rightarrow> Inl e
      | Inr time_array \<Rightarrow> avg_values time_array)"

subsection \<open>Traffic signs per city\<close>

text \<open>
  The loop of \<open>traffic_signs\<close>. The name \<open>count\<close> is not a local of the function: it is
  read from the module (\<open>None\<close>: not bound, \<open>NameError\<close>), where the main loop binds it
  to the latest crossing count. \<open>instrument_ids is None\<close> never holds.
\<close>

fun traffic_signs_loop :: "nat option \<Rightarrow> mapping_row list \<Rightarrow> (string \<times> dataframe) list
    \<Rightarrow> (string, real) dict \<Rightarrow> (string, nat) dict \<Rightarrow> py_error + (string, real) dict" where
  "traffic_signs_loop count df_mapping [] info duration_d = Inr info"
| "traffic_signs_loop count df_mapping ((key, value) # rest) info duration_d =
     (case find_values_with_video_id df_mapping key of
        Inl e \<Rightarrow> Inl e
      | Inr None \<Rightarrow> traffic_signs_loop count df_mapping rest info duration_d
      | Inr (Some r) \<Rightarrow>
          (let duration = r_end r - r_start r;
               instrument = filter (\<lambda>x. YOLO_id x = 9 \<or> YOLO_id x = 11) value;
               instrument_ids = unique (map Unique_Id instrument)
           in if duration = 0 then Inl ZeroDivisionError
              else
                (let count' = (real (length instrument_ids) / real_of_int duration) * 60
                 in case map_of info (agg_key r) of
                      Some old_count \<Rightarrow>
                        (let new_count =
                               old_count * real (case map_of duration_d (agg_key r) of
                                                   Some d \<Rightarrow> d | None \<Rightarrow> 0) + count'
                         in case count of
                              None \<Rightarrow> Inl NameError
                            | Some c \<Rightarrow>
                                (let duration_d' =
                                       (case map_of duration_d (agg_key r) of
                                          Some d \<Rightarrow> AList.update (agg_key r) (d + c) duration_d
                                        | None \<Rightarrow> AList.update (agg_key r) c duration_d);
                                     divisor = (case map_of duration_d' (agg_key r) of
                                                  Some d \<Rightarrow> d | None \<Rightarrow> 0)
                                 in if divisor = 0 then Inl ZeroDivisionError
                                    else traffic_signs_loop count df_mapping rest
                                           (AList.update (agg_key r) (new_count / real divisor) info)
                                           duration_d'))
                    | None \<Rightarrow>
                        traffic_signs_loop count df_mapping rest
                          (AList.update (agg_key r) count' info) duration_d)))"

definition traffic_signs :: "nat option \<Rightarrow> mapping_row list \<Rightarrow> (string, dataframe) dict
    \<Rightarrow> py_error + (string, real) dict" where
  "traffic_signs count df_mapping dfs = traffic_signs_loop count df_mapping dfs [] []"

text \<open>The value of \<open>count\<close> after the main loop \<open>for key, value in dfs.items()\<close>.\<close>

definition main_count :: "(string, dataframe) dict \<Rightarrow> nat option" where
  "main_count dfs =
     (if dfs = [] then None
      else Some (fst (pedestrian_crossing (snd (last dfs)) 0.45 0.55 0)))"

subsection \<open>Traffic-infrastructure correlator\<close>

text \<open>
  The rows \<open>value.loc[first_occurrence:last_occurrence]\<close> of one crossing event (both
  ends included); \<open>unique_id_indices[0]\<close> raises on an identity with no row.
\<close>

definition occurrence_range :: "dataframe \<Rightarrow> int \<Rightarrow> py_error + detection list" where
  "occurrence_range value id' =
     (let unique_id_indices = map fst (filter (\<lambda>(i, r). Unique_Id r = id') (indexed value))
      in if unique_id_indices = [] then Inl IndexError
         else
           (let first_occurrence = hd unique_id_indices;
                last_occurrence = last unique_id_indices
            in Inr (take (last_occurrence + 1 - first_occurrence)
                      (drop first_occurrence value))))"

text \<open>The loop \<open>for id, time in df.items()\<close>; \<open>value\<close> is \<open>dfs.get(key)\<close>, read only in
  the loop body.\<close>

fun count_events :: "dataframe option \<Rightarrow> (int \<times> real) list \<Rightarrow> nat \<Rightarrow> nat
    \<Rightarrow> py_error + nat \<times> nat" where
  "count_events value [] counter_exists counter_nt_exists =
     Inr (counter_exists, counter_nt_exists)"
| "count_events value ((id', time) # rest) counter_exists counter_nt_exists =
     (case value of
        None \<Rightarrow> Inl AttributeError
      | Some v \<Rightarrow>
          (case occurrence_range v id' of
             Inl e \<Rightarrow> Inl e
           | Inr rows \<Rightarrow>
               (let yolo_id_9_exists = list_ex (\<lambda>r. YOLO_id r \<in> set [9, 11]) rows;
                    yolo_id_9_not_exists = (\<not> list_ex (\<lambda>r. YOLO_id r \<in> set [9, 11]) rows)
                in count_events value rest
                     (if yolo_id_9_exists then counter_exists + 1 else counter_exists)
                     (if yolo_id_9_not_exists then counter_nt_exists + 1
                      else counter_nt_exists))))"

text \<open>\<open>d.get(k, 0)\<close>.\<close>

definition get0 :: "(string, 'a::zero) dict \<Rightarrow> string \<Rightarrow> 'a" where
  "get0 d k = (case map_of d k of Some v \<Rightarrow> v | None \<Rightarrow> 0)"

type_synonym equipment_state =
  "(string, nat) dict \<times> (string, nat) dict \<times> (string, int) dict \<times> (string, real) dict"

fun crossing_event_loop :: "mapping_row list \<Rightarrow> (string, dataframe) dict
    \<Rightarrow> (string \<times> (int, real) dict) list \<Rightarrow> equipment_state
    \<Rightarrow> py_error + equipment_state" where
  "crossing_event_loop df_mapping dfs [] st = Inr st"
| "crossing_event_loop df_mapping dfs ((key, df) # rest)
       (counter_1, counter_2, time_d, population_d) =
     (case find_values_with_video_id df_mapping key of
        Inl e \<Rightarrow> Inl e
      | Inr None \<Rightarrow>
          crossing_event_loop df_mapping dfs rest (counter_1, counter_2, time_d, population_d)
      | Inr (Some r) \<Rightarrow>
          (let duration = r_end r - r_start r;
               time_d' = (case map_of time_d (agg_key r) of
                            Some t \<Rightarrow> AList.update (agg_key r) (t + duration) time_d
                          | None \<Rightarrow> AList.update (agg_key r) duration time_d)
           in case count_events (map_of dfs key) df 0 0 of
                Inl e \<Rightarrow> Inl e
              | Inr (counter_exists, counter_nt_exists) \<Rightarrow>
                  crossing_event_loop df_mapping dfs rest
                    (AList.update (agg_key r) (get0 counter_1 (agg_key r) + counter_exists)
                       counter_1,
                     AList.update (agg_key r) (get0 counter_2 (agg_key r) + counter_nt_exists)
                       counter_2,
                     time_d',
                     AList.update (agg_key r) (r_population r) population_d)))"

definition crossing_event_wt_traffic_equipment :: "mapping_row list \<Rightarrow> (string, dataframe) dict
    \<Rightarrow> (string, (int, real) dict) dict \<Rightarrow> py_error + equipment_state" where
  "crossing_event_wt_traffic_equipment df_mapping dfs data =
     crossing_event_loop df_mapping dfs data ([], [], [], [])"

text \<open>One rate \<open>(counter[key] * 60) / time[key] / population[key]\<close>: Python divisions.\<close>

definition rate :: "(string, nat) dict \<Rightarrow> (string, int) dict \<Rightarrow> (string, real) dict \<Rightarrow> string
    \<Rightarrow> py_error + real" where
  "rate counter time_d population_d key =
     (case map_of counter key of
        None \<Rightarrow> Inl KeyError
      | Some c \<Rightarrow>
          (case map_of time_d key of
             None \<Rightarrow> Inl KeyError
           | Some t \<Rightarrow>
               if t = 0 then Inl ZeroDivisionError
               else (case map_of population_d key of
                       None \<Rightarrow> Inl KeyError
                     | Some p \<Rightarrow>
                         if p = 0 then Inl ZeroDivisionError
                         else Inr (real (c * 60) / real_of_int t / p))))"

fun normalise_loop :: "(string, nat) dict \<Rightarrow> (string, nat) dict \<Rightarrow> (string, int) dict
    \<Rightarrow> (string, real) dict \<Rightarrow> (string \<times> int) list \<Rightarrow> (string, real) dict
    \<Rightarrow> (string, real) dict \<Rightarrow> py_error + (string, real) dict \<times> (string, real) dict" where
  "normalise_loop w wo time_d population_d [] var_exist var_nt_exist =
     Inr (var_exist, var_nt_exist)"
| "normalise_loop w wo time_d population_d ((key, value) # rest) var_exist var_nt_exist =
     (case rate w time_d population_d key of
        Inl e \<Rightarrow> Inl e
      | Inr a \<Rightarrow>
          (case rate wo time_d population_d key of
             Inl e \<Rightarrow> Inl e
           | Inr b \<Rightarrow>
               normalise_loop w wo time_d population_d rest
                 (AList.update key a var_exist) (AList.update key b var_nt_exist)))"

definition nomalised_crossing_wth_traffic_equipment :: "mapping_row list
    \<Rightarrow> (string, dataframe) dict \<Rightarrow> (string, (int, real) dict) dict
    \<Rightarrow> py_error + (string, real) dict \<times> (string, real) dict" where
  "nomalised_crossing_wth_traffic_equipment df_mapping dfs data =
     (case crossing_event_wt_traffic_equipment df_mapping dfs data of
        Inl e \<Rightarrow> Inl e
      | Inr (with_traffic_instr, without_traffic_instr, time_d, population_d) \<Rightarrow>
          normalise_loop with_traffic_instr without_traffic_instr time_d population_d
            time_d [] [])"

text \<open>
  The number of crossing events processed for an aggregate key: the events of every
  segment of \<open>data\<close> whose lookup succeeds with that key.
\<close>

definition events_processed :: "mapping_row list \<Rightarrow> (string \<times> (int, real) dict) list
    \<Rightarrow> string \<Rightarrow> nat" where
  "events_processed df_mapping data k =
     sum_list (map (\<lambda>(key, df).
        case find_values_with_video_id df_mapping key of
          Inr (Some r) \<Rightarrow> if agg_key r = k then length df else 0
        | _ \<Rightarrow> 0) data)"

text \<open>
  The cumulative duration in seconds of the segments of \<open>data\<close> processed for an
  aggregate key.
\<close>

definition seconds_processed :: "mapping_row list \<Rightarrow> (string \<times> (int, real) dict) list
    \<Rightarrow> string \<Rightarrow> int" where
  "seconds_processed df_mapping data k =
     sum_list (map (\<lambda>(key, df).
        case find_values_with_video_id df_mapping key of
          Inr (Some r) \<Rightarrow> if agg_key r = k then r_end r - r_start r else 0
        | _ \<Rightarrow> 0) data)"

subsection \<open>Example data\<close>

text \<open>A mapping table of one city with one video of two segments, \<open>v_0\<close> and \<open>v_30\<close>,
  of 30 seconds each at 10 frames per second.\<close>

definition example_row :: mapping_row where
  "example_row = \<lparr> videos = [''v''], start_time = [[0, 30]], end_time = [[30, 60]],
          time_of_day = [[0, 0]], city = ''A'', state = None, country = ''C'',
          gdp_city = 10, population_city = 500, population_country = 1000,
          traffic_mortality = 1, continent = ''E'', literacy_rate = 99,
          avg_height = 170, ISO_country = ''CCC'', fps_list = [10] \<rparr>"

text \<open>A detection of a pedestrian (class 0) and of a traffic light (class 9).\<close>

definition person :: "int \<Rightarrow> real \<Rightarrow> detection" where
  "person u x = \<lparr>YOLO_id = 0, Unique_Id = u, X_center = x, Height = 0.2\<rparr>"

definition light :: "int \<Rightarrow> detection" where
  "light u = \<lparr>YOLO_id = 9, Unique_Id = u, X_center = 0.5, Height = 0.2\<rparr>"

text \<open>One pedestrian walking from 0.1 to 0.9 in 20 rows of equal steps.\<close>

definition steady_walk :: dataframe where
  "steady_walk = map (\<lambda>k. person 1 (0.1 + real k * (0.8 / 19))) [0..<20]"

text \<open>A table in which each of the pedestrians \<open>us\<close> is seen twice, at 0.4 and at 0.6, with
  a traffic light detected in between.\<close>

definition signalled :: "int list \<Rightarrow> dataframe" where
  "signalled us = concat (map (\<lambda>u. [person u 0.4, light 100, person u 0.6]) us)"

text \<open>A pedestrian who stays at \<open>a\<close> for 40 rows and is at \<open>b\<close> in row 40.\<close>

definition waits_then_moves :: "real \<Rightarrow> real \<Rightarrow> dataframe" where
  "waits_then_moves a b = replicate 40 (person 1 a) @ [person 1 b]"

text \<open>
  Float64 arithmetic on the examples of the speed of crossing. Their numbers are
  chosen so that every exact result is a float64 number, where rounding changes
  nothing, but for \<open>120 / 100\<close>, which rounds to the float64 value of \<open>1.2\<close>.
\<close>

definition example_arith :: np_arith where
  "example_arith = \<lparr> rnd = (\<lambda>x. if x = 6 / 5 then Num speed_limit else Num x),
                      col_sum = (\<lambda>xs. Num (sum_list xs)) \<rparr>"

text \<open>A pedestrian detection with a bounding box of height \<open>h\<close>.\<close>

definition box :: "int \<Rightarrow> real \<Rightarrow> real \<Rightarrow> detection" where
  "box u x h = \<lparr>YOLO_id = 0, Unique_Id = u, X_center = x, Height = h\<rparr>"

text \<open>Two crossing pedestrians with boxes of height \<open>0.5\<close>: the first moves by \<open>30/32\<close>, the
  second by \<open>25/32\<close>.\<close>

definition two_walkers :: dataframe where
  "two_walkers = [box 1 (1 / 32) 0.5, box 2 0.125 0.5, box 1 (31 / 32) 0.5, box 2 0.90625 0.5]"

text \<open>A crossing pedestrian whose boxes have the height \<open>0\<close>.\<close>

definition flat_walker :: dataframe where
  "flat_walker = [box 1 0.25 0, box 1 0.75 0]"

section \<open>Crossing detector: properties\<close>

lemma set_unique: "set (unique xs) = set xs"
  by (simp add: unique_def)

lemma distinct_unique: "distinct (unique xs)"
  by (simp add: unique_def)

lemma pedestrian_crossing_ids:
  "set (snd (pedestrian_crossing dataframe min_x max_x person_id))
     = {u. track dataframe person_id u \<noteq> [] \<and>
           touches_both min_x max_x (track dataframe person_id u)}"
proof -
  have "u \<in> set (snd (pedestrian_crossing dataframe min_x max_x person_id))
        \<longleftrightarrow> track dataframe person_id u \<noteq> [] \<and>
            touches_both min_x max_x (track dataframe person_id u)" for u
  proof -
    have "u \<in> set (snd (pedestrian_crossing dataframe min_x max_x person_id))
          \<longleftrightarrow> (\<exists>r \<in> set dataframe. YOLO_id r = person_id \<and> Unique_Id r = u \<and>
                 touches_both min_x max_x (track dataframe person_id (Unique_Id r)))"
      by (auto simp: pedestrian_crossing_def Let_def set_unique track_def)
    also have "\<dots> \<longleftrightarrow> track dataframe person_id u \<noteq> [] \<and>
                 touches_both min_x max_x (track dataframe person_id u)"
      by (auto simp: track_def filter_empty_conv)
    finally show ?thesis .
  qed
  then show ?thesis by blast
qed

text \<open>
  Claim C1. For every detection table, thresholds and object class, \<open>pedestrian_crossing\<close>
  returns exactly the identities that have, among the rows of the class, a row with
  horizontal centre \<open>\<le> min_x\<close> and a row with horizontal centre \<open>\<ge> max_x\<close>; each
  identity is listed once and the count is the number of these identities. Rows of
  other classes do not count, and one condition alone is not enough.
\<close>

theorem pedestrian_crossing_exact:
  "set (snd (pedestrian_crossing dataframe min_x max_x person_id))
     = {u. (\<exists>r \<in> set dataframe. YOLO_id r = person_id \<and> Unique_Id r = u \<and> X_center r \<le> min_x) \<and>
           (\<exists>r \<in> set dataframe. YOLO_id r = person_id \<and> Unique_Id r = u \<and> X_center r \<ge> max_x)}
   \<and> distinct (snd (pedestrian_crossing dataframe min_x max_x person_id))
   \<and> fst (pedestrian_crossing dataframe min_x max_x person_id)
     = card {u. (\<exists>r \<in> set dataframe. YOLO_id r = person_id \<and> Unique_Id r = u \<and> X_center r \<le> min_x) \<and>
                (\<exists>r \<in> set dataframe. YOLO_id r = person_id \<and> Unique_Id r = u \<and> X_center r \<ge> max_x)}"
proof -
  let ?S = "{u. (\<exists>r \<in> set dataframe. YOLO_id r = person_id \<and> Unique_Id r = u \<and> X_center r \<le> min_x) \<and>
                (\<exists>r \<in> set dataframe. YOLO_id r = person_id \<and> Unique_Id r = u \<and> X_center r \<ge> max_x)}"
  let ?ids = "snd (pedestrian_crossing dataframe min_x max_x person_id)"
  have s: "set ?ids = ?S"
    unfolding pedestrian_crossing_ids
    by (auto simp: touches_both_def track_def list_ex_iff filter_empty_conv)
  have d: "distinct ?ids"
    by (simp add: pedestrian_crossing_def Let_def distinct_unique)
  have "fst (pedestrian_crossing dataframe min_x max_x person_id) = length ?ids"
    by (simp add: pedestrian_crossing_def Let_def)
  also have "\<dots> = card (set ?ids)"
    using d by (simp add: distinct_card)
  finally have c: "fst (pedestrian_crossing dataframe min_x max_x person_id) = card ?S"
    using s by simp
  from s d c show ?thesis by blast
qed

text \<open>
  Claim C9, as stated: a track of exactly one row is never reported unless
  \<open>min_x = max_x\<close>. It fails when the thresholds are given in the other order, which
  the docstring allows (\<open>min_x\<close>: "Min/Max", \<open>max_x\<close>: "Max/Min"): one row at \<open>0.5\<close>
  with \<open>min_x = 0.6\<close> and \<open>max_x = 0.4\<close> is reported.
\<close>

theorem single_row_counterexample:
  "length (track [\<lparr>YOLO_id = 0, Unique_Id = 1, X_center = 0.5, Height = 0.2\<rparr>] 0 1) = 1
   \<and> (0.6::real) \<noteq> 0.4
   \<and> pedestrian_crossing [\<lparr>YOLO_id = 0, Unique_Id = 1, X_center = 0.5, Height = 0.2\<rparr>] 0.6 0.4 0
       = (1, [1])"
  by (simp add: track_def pedestrian_crossing_def touches_both_def unique_def)

text \<open>
  Claim C9, amended: a track of exactly one row is reported exactly when its position
  lies between the thresholds, \<open>max_x \<le> x \<le> min_x\<close>; so it is never reported when
  \<open>min_x < max_x\<close>.
\<close>

theorem single_row_track:
  assumes "track dataframe person_id u = [r]"
  shows "(u \<in> set (snd (pedestrian_crossing dataframe min_x max_x person_id))
            \<longleftrightarrow> max_x \<le> X_center r \<and> X_center r \<le> min_x)
         \<and> (min_x < max_x \<longrightarrow>
              u \<notin> set (snd (pedestrian_crossing dataframe min_x max_x person_id)))"
  using assms by (auto simp: pedestrian_crossing_ids touches_both_def)

theorem single_row_track_witness:
  "track [\<lparr>YOLO_id = 0, Unique_Id = 1, X_center = 0.5, Height = 0.2\<rparr>] 0 1
     = [\<lparr>YOLO_id = 0, Unique_Id = 1, X_center = 0.5, Height = 0.2\<rparr>]
   \<and> (0.45::real) < 0.55
   \<and> 1 \<notin> set (snd (pedestrian_crossing
         [\<lparr>YOLO_id = 0, Unique_Id = 1, X_center = 0.5, Height = 0.2\<rparr>] 0.45 0.55 0))"
proof -
  have t: "track [\<lparr>YOLO_id = 0, Unique_Id = 1, X_center = 0.5, Height = 0.2\<rparr>] 0 1
     = [\<lparr>YOLO_id = 0, Unique_Id = 1, X_center = 0.5, Height = 0.2\<rparr>]"
    by (simp add: track_def)
  show ?thesis
    using t single_row_track [OF t, of "0.45" "0.55"] by simp
qed

section \<open>Mapping index and time to cross: properties\<close>

lemmas lookup_simps = find_values_with_video_id_def rsplit_underscore_def py_int_def
  py_strip_def py_space_def digit_of_def found_def

lemma series_min_Min: "xs \<noteq> [] \<Longrightarrow> series_min xs = Min (set xs)"
proof -
  assume "xs \<noteq> []"
  then obtain y ys where xs: "xs = y # ys" by (cases xs) auto
  have "Min (set (y # ys)) = fold min ys y" by (rule Min.set_eq_fold)
  then show ?thesis by (simp add: xs series_min_def)
qed

lemma series_max_Max: "xs \<noteq> [] \<Longrightarrow> series_max xs = Max (set xs)"
proof -
  assume "xs \<noteq> []"
  then obtain y ys where xs: "xs = y # ys" by (cases xs) auto
  have "Max (set (y # ys)) = fold max ys y" by (rule Max.set_eq_fold)
  then show ?thesis by (simp add: xs series_max_def)
qed

lemma first_index_Cons:
  "first_index v (x # xs) = (if x = v then 0 else Suc (first_index v xs))"
  by (simp add: first_index_def)

lemma walk_flagged:
  "b \<in> set xs \<Longrightarrow> walk a b xs c True = Some (c + first_index b xs + 1)"
  by (induction xs arbitrary: c) (auto simp: first_index_Cons)

lemma walk_unflagged:
  "a \<in> set xs \<Longrightarrow> b \<in> set xs \<Longrightarrow> first_index a xs \<le> first_index b xs
   \<Longrightarrow> walk a b xs c False = Some (c + (first_index b xs - first_index a xs) + 1)"
proof (induction xs arbitrary: c)
  case Nil
  then show ?case by simp
next
  case (Cons x xs)
  show ?case
  proof (cases "x = a")
    case True
    then show ?thesis
      using Cons.prems by (auto simp: first_index_Cons walk_flagged)
  next
    case False
    with Cons.prems have "x \<noteq> b"
      by (auto simp: first_index_Cons split: if_splits)
    with False Cons show ?thesis
      by (auto simp: first_index_Cons)
  qed
qed

lemma first_label_order:
  fixes ps :: "(nat \<times> 'b) list"
  assumes "sorted_wrt (<) (map fst ps)"
    and "\<exists>p \<in> set ps. P p" and "\<exists>p \<in> set ps. Q p"
  shows "fst (hd (filter P ps)) < fst (hd (filter Q ps))
         \<longleftrightarrow> length (takeWhile (\<lambda>p. \<not> P p) ps) < length (takeWhile (\<lambda>p. \<not> Q p) ps)"
  using assms
proof (induction ps)
  case Nil
  then show ?case by simp
next
  case (Cons p ps)
  have later: "fst p < fst (hd (filter R ps))" if "\<exists>q \<in> set ps. R q" for R
  proof -
    from that have "filter R ps \<noteq> []" by (auto simp: filter_empty_conv)
    then have "hd (filter R ps) \<in> set ps"
      using hd_in_set[of "filter R ps"] by auto
    with Cons.prems(1) show ?thesis by auto
  qed
  show ?case
  proof (cases "P p")
    case True
    show ?thesis
    proof (cases "Q p")
      case True
      with \<open>P p\<close> show ?thesis by simp
    next
      case False
      with Cons.prems(3) have "\<exists>q \<in> set ps. Q q" by auto
      from later[OF this] \<open>P p\<close> False show ?thesis by simp
    qed
  next
    case False
    with Cons.prems(2) have Pps: "\<exists>q \<in> set ps. P q" by auto
    show ?thesis
    proof (cases "Q p")
      case True
      from later[OF Pps] \<open>\<not> P p\<close> True show ?thesis by simp
    next
      case False
      with Cons.prems(3) have "\<exists>q \<in> set ps. Q q" by auto
      with Cons.IH Cons.prems(1) Pps \<open>\<not> P p\<close> False show ?thesis by simp
    qed
  qed
qed

lemma indexed_labels_sorted:
  "sorted_wrt (<) (map fst (filter P (indexed dataframe)))"
proof -
  have "sorted_wrt (<) (map fst (indexed dataframe))"
    by (simp add: indexed_def)
  then show ?thesis
    by (simp add: sorted_wrt_map sorted_wrt_filter)
qed

lemma indexed_rows:
  "map snd (filter (\<lambda>(i, r). P r) (indexed dataframe)) = filter P dataframe"
proof -
  have "map snd (filter (\<lambda>(i, r). P r) (zip ns rs)) = filter P rs"
    if "length ns = length rs" for ns :: "nat list" and rs
    using that by (induction ns rs rule: list_induct2) auto
  then show ?thesis by (simp add: indexed_def)
qed

lemma first_index_less:
  "v \<in> set xs \<Longrightarrow> first_index v xs < length xs"
  by (induction xs) (auto simp: first_index_Cons)


lemma first_index_map:
  "first_index v (map f ps) = length (takeWhile (\<lambda>p. f p \<noteq> v) ps)"
  by (simp add: first_index_def takeWhile_map comp_def)

lemma rows_to_cross_walked:
  assumes "id' \<in> Unique_Id ` set dataframe"
  shows "rows_to_cross dataframe id'
         = Inr (Some (rows_walked (map X_center (filter (\<lambda>r. Unique_Id r = id') dataframe))))"
proof -
  define grp where "grp = filter (\<lambda>(i, r). Unique_Id r = id') (indexed dataframe)"
  define f where "f = (\<lambda>(i :: nat, r :: detection). X_center r)"
  define xs where "xs = map f grp"
  have xs_rows: "xs = map X_center (filter (\<lambda>r. Unique_Id r = id') dataframe)"
  proof -
    have "xs = map X_center (map snd grp)"
      by (simp add: xs_def f_def comp_def case_prod_unfold)
    then show ?thesis
      by (simp add: grp_def indexed_rows)
  qed
  from assms have ne: "xs \<noteq> []"
    by (auto simp: xs_rows filter_empty_conv)
  then have grp_ne: "grp \<noteq> []" by (auto simp: xs_def)
  define x_min where "x_min = series_min xs"
  define x_max where "x_max = series_max xs"
  have mn: "x_min = Min (set xs)" and mx: "x_max = Max (set xs)"
    using ne by (simp_all add: x_min_def x_max_def series_min_Min series_max_Max)
  have min_in: "x_min \<in> set xs" and max_in: "x_max \<in> set xs"
    using ne by (simp_all add: mn mx)
  have labels: "fst (hd (filter (\<lambda>p. f p = x_min) grp)) < fst (hd (filter (\<lambda>p. f p = x_max) grp))
                \<longleftrightarrow> first_index x_min xs < first_index x_max xs"
  proof -
    have "sorted_wrt (<) (map fst grp)"
      unfolding grp_def by (rule indexed_labels_sorted)
    moreover have "\<exists>p \<in> set grp. f p = x_min" "\<exists>p \<in> set grp. f p = x_max"
      using min_in max_in by (auto simp: xs_def)
    ultimately show ?thesis
      using first_label_order[of grp "\<lambda>p. f p = x_min" "\<lambda>p. f p = x_max"]
      by (simp add: xs_def first_index_map)
  qed
  have unfold: "rows_to_cross dataframe id'
        = (if fst (hd (filter (\<lambda>p. f p = x_min) grp)) < fst (hd (filter (\<lambda>p. f p = x_max) grp))
           then Inr (walk x_min x_max xs 0 False) else Inr (walk x_max x_min xs 0 False))"
    using grp_ne
    by (simp add: rows_to_cross_def Let_def grp_def f_def xs_def x_min_def x_max_def
        case_prod_unfold)
  show ?thesis
  proof (cases "first_index x_min xs < first_index x_max xs")
    case True
    then have "walk x_min x_max xs 0 False
               = Some (0 + (first_index x_max xs - first_index x_min xs) + 1)"
      using min_in max_in by (intro walk_unflagged) auto
    with True show ?thesis
      by (simp add: unfold labels rows_walked_def Let_def xs_rows[symmetric] mn[symmetric] mx[symmetric])
  next
    case False
    then have "walk x_max x_min xs 0 False
               = Some (0 + (first_index x_min xs - first_index x_max xs) + 1)"
      using min_in max_in by (intro walk_unflagged) auto
    with False show ?thesis
      by (simp add: unfold labels rows_walked_def Let_def xs_rows[symmetric] mn[symmetric] mx[symmetric])
  qed
qed

lemma time_to_cross_loop_walked:
  assumes "\<forall>i \<in> set ids. i \<in> Unique_Id ` set dataframe" and "f \<noteq> 0"
  shows "\<exists>var'. time_to_cross_loop dataframe (Some f) ids var = Inr var'
           \<and> (\<forall>i. map_of var' i =
                 (if i \<in> set ids
                  then Some (real (rows_walked (map X_center
                          (filter (\<lambda>r. Unique_Id r = i) dataframe))) / f)
                  else map_of var i))"
  using assms(1)
proof (induction ids arbitrary: var)
  case Nil
  then show ?case by simp
next
  case (Cons a ids)
  let ?v = "real (rows_walked (map X_center (filter (\<lambda>r. Unique_Id r = a) dataframe))) / f"
  from Cons.prems have a: "a \<in> Unique_Id ` set dataframe"
    and rest: "\<forall>i \<in> set ids. i \<in> Unique_Id ` set dataframe" by auto
  from Cons.IH[OF rest, of "AList.update a ?v var"] obtain var'
    where r: "time_to_cross_loop dataframe (Some f) ids (AList.update a ?v var) = Inr var'"
      and m: "\<forall>i. map_of var' i =
                 (if i \<in> set ids
                  then Some (real (rows_walked (map X_center
                          (filter (\<lambda>r. Unique_Id r = i) dataframe))) / f)
                  else map_of (AList.update a ?v var) i)"
    by blast
  have "time_to_cross_loop dataframe (Some f) (a # ids) var = Inr var'"
    using r assms(2) by (simp add: rows_to_cross_walked[OF a])
  moreover have "\<forall>i. map_of var' i =
                 (if i \<in> set (a # ids)
                  then Some (real (rows_walked (map X_center
                          (filter (\<lambda>r. Unique_Id r = i) dataframe))) / f)
                  else map_of var i)"
    using m by (auto simp: update_conv')
  ultimately show ?case by blast
qed

text \<open>
  Claim C2. When the lookup of the segment succeeds (with a frame rate other than zero)
  and every identity of the id list has a row in the table, \<open>time_to_cross\<close> returns a
  dictionary that maps every identity of the list, and nothing else, to the number of
  rows walked from the first-occurring extreme of its horizontal position (the minimum
  if the first row of the minimum precedes the first row of the maximum, else the
  maximum) up to and including the first row of the opposite extreme, divided by the
  frame rate.
\<close>

theorem time_to_cross_rows_walked:
  assumes "find_values_with_video_id df_mapping video_id = Inr (Some r)"
    and "r_fps r \<noteq> 0"
    and "\<forall>i \<in> set ids. i \<in> Unique_Id ` set dataframe"
  shows "\<exists>var. time_to_cross df_mapping dataframe ids video_id = Inr var
           \<and> (\<forall>i. map_of var i =
                 (if i \<in> set ids
                  then Some (real (rows_walked (map X_center
                          (filter (\<lambda>r. Unique_Id r = i) dataframe))) / r_fps r)
                  else None))"
  using time_to_cross_loop_walked[OF assms(3) assms(2), of "[]"] assms(1)
  by (auto simp: time_to_cross_def)

theorem time_to_cross_rows_walked_witness:
  "(\<exists>r. find_values_with_video_id [example_row] ''v_0'' = Inr (Some r) \<and> r_fps r = 10)
   \<and> 1 \<in> Unique_Id ` set steady_walk
   \<and> rows_walked (map X_center (filter (\<lambda>r. Unique_Id r = 1) steady_walk)) = 20
   \<and> (\<exists>var. time_to_cross [example_row] steady_walk [1] ''v_0'' = Inr var
         \<and> map_of var 1 = Some 2)"
proof -
  have f: "find_values_with_video_id [example_row] ''v_0'' = Inr (Some
   \<lparr> r_video = ''v'', r_start = 0, r_end = 30, r_time_of_day = 0, r_city = ''A'',
      r_state = ''unknown'', r_country = ''C'', r_gdp = 10 / 500, r_population = 500,
      r_population_country = 1000, r_traffic_mortality = 1, r_continent = ''E'',
      r_literacy_rate = 99, r_avg_height = 170, r_iso_country = ''CCC'', r_fps = 10 \<rparr>)"
    by (simp add: lookup_simps example_row_def)
  have i: "\<forall>i \<in> set [1]. i \<in> Unique_Id ` set steady_walk"
    by (simp add: steady_walk_def person_def upt_rec)
  have w: "rows_walked (map X_center (filter (\<lambda>r. Unique_Id r = 1) steady_walk)) = 20"
    by (simp add: steady_walk_def person_def rows_walked_def first_index_def upt_rec)
  from time_to_cross_rows_walked[OF f _ i] w f i show ?thesis
    by auto
qed

subsection \<open>A lookup without a match\<close>

lemma match_start_no_match:
  "py_int s = Some n \<Longrightarrow> n \<notin> set start \<Longrightarrow> match_start s start c = Inr None"
  by (induction start arbitrary: c) auto

lemma match_video_no_match:
  "py_int s = Some n \<Longrightarrow> \<forall>seg \<in> set segs. fst seg = id' \<longrightarrow> n \<notin> set (fst (snd seg))
   \<Longrightarrow> match_video row id' s segs = Inr None"
proof (induction segs)
  case Nil
  then show ?case by simp
next
  case (Cons seg segs)
  obtain video start end_l tod fps where seg: "seg = (video, start, end_l, tod, fps)"
    by (cases seg) auto
  from Cons show ?case
    by (auto simp: seg match_start_no_match)
qed

lemma find_values_no_match:
  assumes "rsplit_underscore key = [id', s]" and "py_int s = Some n"
    and "\<forall>row \<in> set df. \<forall>seg \<in> set (zip (videos row) (zip (start_time row)
            (zip (end_time row) (zip (time_of_day row) (fps_list row))))).
          fst seg = id' \<longrightarrow> n \<notin> set (fst (snd seg))"
  shows "find_values_with_video_id df key = Inr None"
proof -
  from assms(3) have "match_rows df id' s = Inr None"
  proof (induction df)
    case Nil
    then show ?case by simp
  next
    case (Cons row df)
    then show ?case
      by (simp add: match_video_no_match[OF assms(2)])
  qed
  with assms(1) show ?thesis
    by (simp add: find_values_with_video_id_def)
qed

lemma lookup_miss_is_skipped:
  assumes "find_values_with_video_id df_mapping key = Inr None"
  shows "calculate_speed_loop A df_mapping dfs ((key, df) # rest) speed_dict
           = calculate_speed_loop A df_mapping dfs rest speed_dict"
    and "time_to_start_cross_loop df_mapping person_id ((key, tbl) # tables) time_dict
           = time_to_start_cross_loop df_mapping person_id tables time_dict"
    and "traffic_signs_loop count df_mapping ((key, tbl) # tables) info duration_d
           = traffic_signs_loop count df_mapping tables info duration_d"
    and "crossing_event_loop df_mapping dfs ((key, df) # rest) (c1, c2, t, p)
           = crossing_event_loop df_mapping dfs rest (c1, c2, t, p)"
  using assms by simp_all

lemma time_to_cross_lookup_miss:
  assumes "find_values_with_video_id df_mapping video_id = Inr None"
  shows "time_to_cross df_mapping dataframe [] video_id = Inr []"
    and "i \<in> Unique_Id ` set dataframe
         \<Longrightarrow> time_to_cross df_mapping dataframe (i # ids) video_id = Inl UnboundLocalError"
  using assms by (simp_all add: time_to_cross_def rows_to_cross_walked)

text \<open>
  Claim C8 on \<open>time_to_cross\<close>: with no match in the mapping table the lookup returns
  no result, but the function then reads \<open>fps\<close>, which only the unpacking of a result
  binds, and raises \<open>UnboundLocalError\<close> for the first crossing identity instead of
  skipping the segment. The table below is one the main loop passes on: its
  pedestrian is reported by \<open>pedestrian_crossing\<close>.
\<close>

theorem time_to_cross_unbound_fps:
  "find_values_with_video_id [] ''v_0'' = Inr None
   \<and> pedestrian_crossing [person 1 0.4, person 1 0.6] 0.45 0.55 0 = (1, [1])
   \<and> time_to_cross [] [person 1 0.4, person 1 0.6] [1] ''v_0'' = Inl UnboundLocalError"
  by (simp add: time_to_cross_def find_values_with_video_id_def rsplit_underscore_def
      person_def rows_to_cross_def indexed_def series_min_def series_max_def
      pedestrian_crossing_def touches_both_def unique_def)

section \<open>Dictionaries of counters and value lists\<close>

lemmas key_simps = agg_key_def str_int_def str_nat.simps

lemma example_lookup:
  "find_values_with_video_id [example_row] ''v_0'' = Inr (Some
   \<lparr> r_video = ''v'', r_start = 0, r_end = 30, r_time_of_day = 0, r_city = ''A'',
      r_state = ''unknown'', r_country = ''C'', r_gdp = 10 / 500, r_population = 500,
      r_population_country = 1000, r_traffic_mortality = 1, r_continent = ''E'',
      r_literacy_rate = 99, r_avg_height = 170, r_iso_country = ''CCC'', r_fps = 10 \<rparr>)"
  by (simp add: lookup_simps example_row_def)

lemma set_update_subset: "set (AList.update k v al) \<subseteq> insert (k, v) (set al)"
  by (induction al) auto

lemma get0_update:
  "get0 (AList.update k v d) k' = (if k' = k then v else get0 d k')"
  by (simp add: get0_def update_conv')

lemma dom_map_of_update:
  "dom (map_of (AList.update k v d)) = insert k (dom (map_of d))"
  by (simp add: update_conv')


section \<open>Traffic-infrastructure correlator: properties\<close>


lemma count_events_total:
  "count_events value evs ce cn = Inr (ce', cn') \<Longrightarrow> ce' + cn' = ce + cn + length evs"
proof (induction evs arbitrary: ce cn)
  case Nil
  then show ?case by simp
next
  case (Cons ev evs)
  obtain i t where ev: "ev = (i, t)" by (cases ev)
  from Cons.prems obtain v rows where v: "value = Some v"
    and rows: "occurrence_range v i = Inr rows"
    by (auto simp: ev split: option.splits sum.splits)
  show ?case
  proof (cases "list_ex (\<lambda>r. YOLO_id r \<in> set [9, 11]) rows")
    case True
    with Cons.prems v rows
    have "count_events value evs (ce + 1) cn = Inr (ce', cn')"
      by (simp add: ev)
    from Cons.IH[OF this] show ?thesis by simp
  next
    case False
    with Cons.prems v rows
    have "count_events value evs ce (cn + 1) = Inr (ce', cn')"
      by (simp add: ev)
    from Cons.IH[OF this] show ?thesis by simp
  qed
qed

lemma crossing_event_loop_totals:
  "crossing_event_loop df_mapping dfs data (c1, c2, t, p) = Inr (c1', c2', t', p')
   \<Longrightarrow> get0 c1' k + get0 c2' k
        = get0 c1 k + get0 c2 k + events_processed df_mapping data k"
proof (induction data arbitrary: c1 c2 t p)
  case Nil
  then show ?case by (simp add: events_processed_def)
next
  case (Cons seg data)
  obtain key df where seg: "seg = (key, df)" by (cases seg)
  have ev: "events_processed df_mapping (seg # data) k
            = (case find_values_with_video_id df_mapping key of
                 Inr (Some r) \<Rightarrow> if agg_key r = k then length df else 0
               | _ \<Rightarrow> 0) + events_processed df_mapping data k"
    by (simp add: events_processed_def seg)
  from Cons.prems obtain res where res: "find_values_with_video_id df_mapping key = Inr res"
    by (auto simp: seg split: sum.splits)
  show ?case
  proof (cases res)
    case None
    with Cons.prems res
    have "crossing_event_loop df_mapping dfs data (c1, c2, t, p) = Inr (c1', c2', t', p')"
      by (simp add: seg)
    from Cons.IH[OF this] show ?thesis
      by (simp add: ev res None)
  next
    case (Some r)
    from Cons.prems res Some obtain ce cn where
      cnt: "count_events (map_of dfs key) df 0 0 = Inr (ce, cn)"
      by (auto simp: seg Let_def split: sum.splits)
    define c1n where "c1n = AList.update (agg_key r) (get0 c1 (agg_key r) + ce) c1"
    define c2n where "c2n = AList.update (agg_key r) (get0 c2 (agg_key r) + cn) c2"
    from Cons.prems res Some cnt obtain tn pn where
      "crossing_event_loop df_mapping dfs data (c1n, c2n, tn, pn) = Inr (c1', c2', t', p')"
      by (auto simp: seg Let_def c1n_def c2n_def)
    from Cons.IH[OF this]
    have "get0 c1' k + get0 c2' k
          = get0 c1n k + get0 c2n k + events_processed df_mapping data k" .
    moreover have "ce + cn = length df"
      using count_events_total[OF cnt] by simp
    ultimately show ?thesis
      by (simp add: ev res Some c1n_def c2n_def get0_update)
  qed
qed

lemma crossing_event_loop_keys:
  "crossing_event_loop df_mapping dfs data (c1, c2, t, p) = Inr (c1', c2', t', p')
   \<Longrightarrow> dom (map_of c1) = dom (map_of c2) \<Longrightarrow> dom (map_of c1') = dom (map_of c2')"
proof (induction data arbitrary: c1 c2 t p)
  case Nil
  then show ?case by simp
next
  case (Cons seg data)
  obtain key df where seg: "seg = (key, df)" by (cases seg)
  from Cons.prems obtain res where res: "find_values_with_video_id df_mapping key = Inr res"
    by (auto simp: seg split: sum.splits)
  show ?case
  proof (cases res)
    case None
    with Cons.prems res
    have "crossing_event_loop df_mapping dfs data (c1, c2, t, p) = Inr (c1', c2', t', p')"
      by (simp add: seg)
    from Cons.IH[OF this Cons.prems(2)] show ?thesis .
  next
    case (Some r)
    from Cons.prems res Some obtain ce cn where
      cnt: "count_events (map_of dfs key) df 0 0 = Inr (ce, cn)"
      by (auto simp: seg Let_def split: sum.splits)
    define c1n where "c1n = AList.update (agg_key r) (get0 c1 (agg_key r) + ce) c1"
    define c2n where "c2n = AList.update (agg_key r) (get0 c2 (agg_key r) + cn) c2"
    from Cons.prems res Some cnt obtain tn pn where
      run: "crossing_event_loop df_mapping dfs data (c1n, c2n, tn, pn) = Inr (c1', c2', t', p')"
      by (auto simp: seg Let_def c1n_def c2n_def)
    have "dom (map_of c1n) = dom (map_of c2n)"
      using Cons.prems(2) by (simp add: c1n_def c2n_def dom_map_of_update)
    from Cons.IH[OF run this] show ?thesis .
  qed
qed

text \<open>
  Claim C5. When \<open>crossing_event_wt_traffic_equipment\<close> returns, then for every aggregate
  key the with-infrastructure count plus the without-infrastructure count is the
  number of crossing events processed for that key (the events of the segments of
  \<open>data\<close> whose lookup succeeds with this key); both dictionaries have the same keys.
  Every event goes to exactly one of the two buckets: the two flags of the source are
  computed from the same rows and one is the negation of the other.
\<close>

theorem crossing_counts_partition:
  assumes "crossing_event_wt_traffic_equipment df_mapping dfs data
           = Inr (counter_1, counter_2, time_d, population_d)"
  shows "(\<forall>k. get0 counter_1 k + get0 counter_2 k = events_processed df_mapping data k)
       \<and> dom (map_of counter_1) = dom (map_of counter_2)
       \<and> (\<forall>k a. map_of counter_1 k = Some a \<longrightarrow>
             (\<exists>b. map_of counter_2 k = Some b \<and> a + b = events_processed df_mapping data k))"
proof -
  have tot: "get0 counter_1 k + get0 counter_2 k = events_processed df_mapping data k" for k
    using crossing_event_loop_totals[OF assms[unfolded crossing_event_wt_traffic_equipment_def], of k]
    by (simp add: get0_def)
  have keys: "dom (map_of counter_1) = dom (map_of counter_2)"
    using crossing_event_loop_keys[OF assms[unfolded crossing_event_wt_traffic_equipment_def]]
    by simp
  have "\<exists>b. map_of counter_2 k = Some b \<and> a + b = events_processed df_mapping data k"
    if a: "map_of counter_1 k = Some a" for k a
  proof -
    from a keys obtain b where b: "map_of counter_2 k = Some b" by blast
    with a tot[of k] show ?thesis by (simp add: get0_def)
  qed
  with tot keys show ?thesis by blast
qed

theorem crossing_counts_partition_witness:
  "crossing_event_wt_traffic_equipment [example_row]
      [(''v_0'', signalled [1] @ [person 2 0.4, person 2 0.6])] [(''v_0'', [(1, 1), (2, 1)])]
    = Inr ([(''A_unknown_0'', 1)], [(''A_unknown_0'', 1)],
           [(''A_unknown_0'', 30)], [(''A_unknown_0'', 500)])
   \<and> events_processed [example_row] [(''v_0'', [(1, 1), (2, 1)])] ''A_unknown_0'' = 2"
proof -
  have r: "crossing_event_wt_traffic_equipment [example_row]
      [(''v_0'', signalled [1] @ [person 2 0.4, person 2 0.6])] [(''v_0'', [(1, 1), (2, 1)])]
    = Inr ([(''A_unknown_0'', 1)], [(''A_unknown_0'', 1)],
           [(''A_unknown_0'', 30)], [(''A_unknown_0'', 500)])"
    by code_simp
  from crossing_counts_partition[OF r] have
    "get0 [(''A_unknown_0'', 1::nat)] ''A_unknown_0'' + get0 [(''A_unknown_0'', 1::nat)] ''A_unknown_0''
     = events_processed [example_row] [(''v_0'', [(1, 1), (2, 1)])] ''A_unknown_0''"
    by blast
  then have "events_processed [example_row] [(''v_0'', [(1, 1), (2, 1)])] ''A_unknown_0'' = 2"
    by (simp add: get0_def)
  with r show ?thesis by simp
qed


subsection \<open>The normalised rates\<close>

lemma get0_accumulate:
  "get0 (case map_of d k of Some t \<Rightarrow> AList.update k (t + x) d | None \<Rightarrow> AList.update k x d) k'
     = (if k' = k then get0 d k + x else get0 d k')"
  for d :: "(string, int) dict"
  by (simp add: get0_def update_conv' split: option.splits)

lemma crossing_event_loop_seconds:
  "crossing_event_loop df_mapping dfs data (c1, c2, t, p) = Inr (c1', c2', t', p')
   \<Longrightarrow> get0 t' k = get0 t k + seconds_processed df_mapping data k"
proof (induction data arbitrary: c1 c2 t p)
  case Nil
  then show ?case by (simp add: seconds_processed_def)
next
  case (Cons seg data)
  obtain key df where seg: "seg = (key, df)" by (cases seg)
  have sec: "seconds_processed df_mapping (seg # data) k
            = (case find_values_with_video_id df_mapping key of
                 Inr (Some r) \<Rightarrow> if agg_key r = k then r_end r - r_start r else 0
               | _ \<Rightarrow> 0) + seconds_processed df_mapping data k"
    by (simp add: seconds_processed_def seg)
  from Cons.prems obtain res where res: "find_values_with_video_id df_mapping key = Inr res"
    by (auto simp: seg split: sum.splits)
  show ?case
  proof (cases res)
    case None
    with Cons.prems res
    have "crossing_event_loop df_mapping dfs data (c1, c2, t, p) = Inr (c1', c2', t', p')"
      by (simp add: seg)
    from Cons.IH[OF this] show ?thesis
      by (simp add: sec res None)
  next
    case (Some r)
    define tn where "tn = (case map_of t (agg_key r) of
                            Some x \<Rightarrow> AList.update (agg_key r) (x + (r_end r - r_start r)) t
                          | None \<Rightarrow> AList.update (agg_key r) (r_end r - r_start r) t)"
    from Cons.prems res Some obtain c1n c2n pn where
      "crossing_event_loop df_mapping dfs data (c1n, c2n, tn, pn) = Inr (c1', c2', t', p')"
      by (auto simp: seg Let_def tn_def split: sum.splits)
    from Cons.IH[OF this]
    have "get0 t' k = get0 tn k + seconds_processed df_mapping data k" .
    then show ?thesis
      by (simp add: sec res Some tn_def get0_accumulate)
  qed
qed

lemma crossing_event_loop_population:
  "crossing_event_loop df_mapping dfs data (c1, c2, t, p) = Inr (c1', c2', t', p')
   \<Longrightarrow> map_of p' k = Some q
   \<Longrightarrow> map_of p k = Some q
       \<or> (\<exists>key df r. (key, df) \<in> set data
             \<and> find_values_with_video_id df_mapping key = Inr (Some r)
             \<and> agg_key r = k \<and> q = r_population r)"
proof (induction data arbitrary: c1 c2 t p)
  case Nil
  then show ?case by simp
next
  case (Cons seg data)
  obtain key df where seg: "seg = (key, df)" by (cases seg)
  from Cons.prems obtain res where res: "find_values_with_video_id df_mapping key = Inr res"
    by (auto simp: seg split: sum.splits)
  show ?case
  proof (cases res)
    case None
    with Cons.prems res
    have "crossing_event_loop df_mapping dfs data (c1, c2, t, p) = Inr (c1', c2', t', p')"
      by (simp add: seg)
    from Cons.IH[OF this Cons.prems(2)] show ?thesis
      by (auto simp: seg)
  next
    case (Some r)
    define pn where "pn = AList.update (agg_key r) (r_population r) p"
    from Cons.prems res Some obtain c1n c2n tn where
      "crossing_event_loop df_mapping dfs data (c1n, c2n, tn, pn) = Inr (c1', c2', t', p')"
      by (auto simp: seg Let_def pn_def split: sum.splits)
    from Cons.IH[OF this Cons.prems(2)]
    consider "map_of pn k = Some q"
      | "\<exists>key df r. (key, df) \<in> set data
             \<and> find_values_with_video_id df_mapping key = Inr (Some r)
             \<and> agg_key r = k \<and> q = r_population r"
      by blast
    then show ?thesis
    proof cases
      case 1
      show ?thesis
      proof (cases "k = agg_key r")
        case True
        with 1 have "q = r_population r" by (simp add: pn_def update_conv')
        with True res Some show ?thesis
          by (auto simp: seg)
      next
        case False
        with 1 show ?thesis by (simp add: pn_def update_conv')
      qed
    next
      case 2
      then show ?thesis by (auto simp: seg)
    qed
  qed
qed


lemma rate_value:
  "rate c t p k = Inr v
   \<Longrightarrow> \<exists>n d q. map_of c k = Some n \<and> map_of t k = Some d \<and> map_of p k = Some q
         \<and> d \<noteq> 0 \<and> q \<noteq> 0 \<and> v = real (n * 60) / real_of_int d / q"
  by (auto simp: rate_def split: option.splits if_splits)

lemma normalise_loop_rates:
  assumes "normalise_loop w wo t p items ve vn = Inr (ve', vn')"
    and "\<forall>k v. map_of ve k = Some v \<longrightarrow> rate w t p k = Inr v"
    and "\<forall>k v. map_of vn k = Some v \<longrightarrow> rate wo t p k = Inr v"
    and "dom (map_of ve) = dom (map_of vn)"
  shows "(\<forall>k v. map_of ve' k = Some v \<longrightarrow> rate w t p k = Inr v)
       \<and> (\<forall>k v. map_of vn' k = Some v \<longrightarrow> rate wo t p k = Inr v)
       \<and> dom (map_of ve') = dom (map_of vn')"
  using assms
proof (induction items arbitrary: ve vn)
  case Nil
  then show ?case by simp
next
  case (Cons item items)
  obtain key x where item: "item = (key, x)" by (cases item)
  from Cons.prems(1) obtain a b where a: "rate w t p key = Inr a"
    and b: "rate wo t p key = Inr b"
    and run: "normalise_loop w wo t p items (AList.update key a ve) (AList.update key b vn)
              = Inr (ve', vn')"
    by (auto simp: item split: sum.splits)
  have 1: "\<forall>k v. map_of (AList.update key a ve) k = Some v \<longrightarrow> rate w t p k = Inr v"
    using Cons.prems(2) a by (auto simp: update_conv')
  have 2: "\<forall>k v. map_of (AList.update key b vn) k = Some v \<longrightarrow> rate wo t p k = Inr v"
    using Cons.prems(3) b by (auto simp: update_conv')
  have 3: "dom (map_of (AList.update key a ve)) = dom (map_of (AList.update key b vn))"
    using Cons.prems(4) by (simp add: dom_map_of_update)
  from Cons.IH[OF run 1 2 3] show ?case .
qed

lemma normalised_rate_formula:
  assumes "nomalised_crossing_wth_traffic_equipment df_mapping dfs data
           = Inr (var_exist, var_nt_exist)"
    and "map_of var_exist k = Some a"
  shows "\<exists>n m q key df r.
           n + m = events_processed df_mapping data k
         \<and> a = real (n * 60) / real_of_int (seconds_processed df_mapping data k) / q
         \<and> map_of var_nt_exist k
             = Some (real (m * 60) / real_of_int (seconds_processed df_mapping data k) / q)
         \<and> (key, df) \<in> set data
         \<and> find_values_with_video_id df_mapping key = Inr (Some r)
         \<and> agg_key r = k \<and> q = r_population r"
proof -
  from assms(1) obtain c1 c2 t p where
    ev: "crossing_event_loop df_mapping dfs data ([], [], [], []) = Inr (c1, c2, t, p)"
    and nl: "normalise_loop c1 c2 t p t [] [] = Inr (var_exist, var_nt_exist)"
    by (auto simp: nomalised_crossing_wth_traffic_equipment_def
        crossing_event_wt_traffic_equipment_def split: sum.splits)
  from normalise_loop_rates[OF nl] have
    re: "\<forall>k v. map_of var_exist k = Some v \<longrightarrow> rate c1 t p k = Inr v"
    and rn: "\<forall>k v. map_of var_nt_exist k = Some v \<longrightarrow> rate c2 t p k = Inr v"
    and dm: "dom (map_of var_exist) = dom (map_of var_nt_exist)"
    by simp_all
  from assms(2) dm obtain b where b: "map_of var_nt_exist k = Some b" by blast
  from re assms(2) have "rate c1 t p k = Inr a" by blast
  from rate_value[OF this] obtain n d q where
    n: "map_of c1 k = Some n" and d: "map_of t k = Some d" and q: "map_of p k = Some q"
    and a: "a = real (n * 60) / real_of_int d / q"
    by blast
  from rn b have "rate c2 t p k = Inr b" by blast
  from rate_value[OF this] d q obtain m where
    m: "map_of c2 k = Some m" and bv: "b = real (m * 60) / real_of_int d / q"
    by auto
  have tot: "n + m = events_processed df_mapping data k"
    using crossing_event_loop_totals[OF ev, of k] n m by (simp add: get0_def)
  have sec: "d = seconds_processed df_mapping data k"
    using crossing_event_loop_seconds[OF ev, of k] d by (simp add: get0_def)
  from crossing_event_loop_population[OF ev q] obtain key df r where
    "(key, df) \<in> set data" "find_values_with_video_id df_mapping key = Inr (Some r)"
    "agg_key r = k" "q = r_population r"
    by auto
  with tot a b bv sec show ?thesis by blast
qed

text \<open>
  Claim C3 says that the rate is divided by the country population, and so does the
  comment at the assignment of \<open>population_\<close>. The value stored there is the tuple field
  \<open>population\<close>, which is the column \<open>population_city\<close>. For two segments of 30 seconds
  with 2 and 4 crossings in a city of 500 in a country of 1000 the rate is
  \<open>6 * 60 / 60 / 500 = 0.012\<close>, where the claim gives \<open>6 * 60 / 60 / 1000 = 0.006\<close>.
\<close>

theorem normalised_rate_divides_by_city_population:
  "population_city example_row = 500 \<and> population_country example_row = 1000
   \<and> nomalised_crossing_wth_traffic_equipment [example_row]
        [(''v_0'', signalled [1, 2]), (''v_30'', signalled [1, 2, 3, 4])]
        [(''v_0'', [(1, 1), (2, 1)]), (''v_30'', [(1, 1), (2, 1), (3, 1), (4, 1)])]
      = Inr ([(''A_unknown_0'', 0.012)], [(''A_unknown_0'', 0)])"
  by (simp add: nomalised_crossing_wth_traffic_equipment_def
      crossing_event_wt_traffic_equipment_def lookup_simps example_row_def key_simps
      signalled_def person_def light_def occurrence_range_def indexed_def get0_def rate_def
      upt_rec)

section \<open>Traffic signs per city: properties\<close>

text \<open>
  Claim C6 says that \<open>traffic_signs\<close> yields the running mean of the per-segment rates
  weighted by the durations. The code never stores a duration: for the second segment
  of a key it multiplies the old value by \<open>duration_.get(key, 0)\<close>, which is 0, and
  divides by \<open>count\<close>, the crossing count the main loop left behind. Two segments of 30
  seconds with 1 and 3 traffic instruments have the rates 2 and 6 per minute and the
  weighted mean 4; the code returns \<open>6 / 2 = 3\<close> when the last table has two crossing
  pedestrians, and raises \<open>ZeroDivisionError\<close> when it has none.
\<close>

theorem traffic_signs_divides_by_crossing_count:
  "main_count [(''v_0'', [light 1]), (''v_30'', [light 1, light 2] @ signalled [1, 2])] = Some 2
   \<and> traffic_signs
        (main_count [(''v_0'', [light 1]), (''v_30'', [light 1, light 2] @ signalled [1, 2])])
        [example_row] [(''v_0'', [light 1]), (''v_30'', [light 1, light 2] @ signalled [1, 2])]
      = Inr [(''A_unknown_0'', 3)]
   \<and> main_count [(''v_0'', [light 1]), (''v_30'', [light 1, light 2, light 3])] = Some 0
   \<and> traffic_signs (main_count [(''v_0'', [light 1]), (''v_30'', [light 1, light 2, light 3])])
        [example_row] [(''v_0'', [light 1]), (''v_30'', [light 1, light 2, light 3])]
      = Inl ZeroDivisionError"
  by code_simp

section \<open>Speed and start of crossing: properties\<close>

lemma append_value_entries:
  "set (append_value k v d) \<subseteq> set d \<union> {(k, vs @ [v]) | vs. map_of d k = Some vs}
      \<union> {(k, [v])}"
  using set_update_subset[of k _ d]
  by (fastforce simp: append_value_def split: option.splits)


lemma extend_values_entries:
  "set (extend_values k vs d) \<subseteq> set d \<union> {(k, old @ vs) | old. map_of d k = Some old}
      \<union> {(k, vs)}"
  using set_update_subset[of k _ d]
  by (fastforce simp: extend_values_def split: option.splits)



text \<open>An invariant of the loops: every stored list is non-empty and holds values that
  are not greater than the limit.\<close>

lemma speed_loop_invariant:
  assumes "speed_loop A tbl r evs d = Inr d'"
    and "\<forall>(k, vs) \<in> set d. vs \<noteq> [] \<and> (\<forall>v \<in> set vs. \<not> np_gt v (Num speed_limit))"
  shows "\<forall>(k, vs) \<in> set d'. vs \<noteq> [] \<and> (\<forall>v \<in> set vs. \<not> np_gt v (Num speed_limit))"
  using assms
proof (induction evs arbitrary: d)
  case Nil
  then show ?case by simp
next
  case (Cons ev evs)
  obtain i t where ev: "ev = (i, t)" by (cases ev)
  from Cons.prems(1) obtain s where s: "crossing_speed A tbl (r_avg_height r) i t = Inr s"
    by (auto simp: ev split: sum.splits)
  show ?case
  proof (cases "np_gt s (Num speed_limit)")
    case True
    with Cons.prems(1) s have "speed_loop A tbl r evs d = Inr d'" by (simp add: ev)
    from Cons.IH[OF this Cons.prems(2)] show ?thesis .
  next
    case False
    with Cons.prems(1) s
    have run: "speed_loop A tbl r evs (append_value (agg_key r) s d) = Inr d'"
      by (simp add: ev)
    have "\<forall>(k, vs) \<in> set (append_value (agg_key r) s d).
            vs \<noteq> [] \<and> (\<forall>v \<in> set vs. \<not> np_gt v (Num speed_limit))"
    proof -
      have "vs \<noteq> [] \<and> (\<forall>v \<in> set vs. \<not> np_gt v (Num speed_limit))"
        if "(k, vs) \<in> set (append_value (agg_key r) s d)" for k vs
      proof -
        from that append_value_entries[of "agg_key r" s d]
        consider "(k, vs) \<in> set d"
          | old where "vs = old @ [s]" "map_of d (agg_key r) = Some old"
          | "vs = [s]"
          by blast
        then show ?thesis
        proof cases
          case 1
          with Cons.prems(2) show ?thesis by blast
        next
          case 2
          from 2(2) have "(agg_key r, old) \<in> set d" by (rule map_of_SomeD)
          with Cons.prems(2) have "\<forall>v \<in> set old. \<not> np_gt v (Num speed_limit)" by blast
          with 2(1) False show ?thesis by auto
        next
          case 3
          with False show ?thesis by auto
        qed
      qed
      then show ?thesis by blast
    qed
    from Cons.IH[OF run this] show ?thesis .
  qed
qed

lemma calculate_speed_loop_invariant:
  assumes "calculate_speed_loop A df_mapping dfs data d = Inr d'"
    and "\<forall>(k, vs) \<in> set d. vs \<noteq> [] \<and> (\<forall>v \<in> set vs. \<not> np_gt v (Num speed_limit))"
  shows "\<forall>(k, vs) \<in> set d'. vs \<noteq> [] \<and> (\<forall>v \<in> set vs. \<not> np_gt v (Num speed_limit))"
  using assms
proof (induction data arbitrary: d)
  case Nil
  then show ?case by simp
next
  case (Cons seg data)
  obtain key df where seg: "seg = (key, df)" by (cases seg)
  show ?case
  proof (cases "df = []")
    case True
    with Cons.prems(1) have "calculate_speed_loop A df_mapping dfs data d = Inr d'"
      by (simp add: seg)
    from Cons.IH[OF this Cons.prems(2)] show ?thesis .
  next
    case False
    with Cons.prems(1) obtain res where
      res: "find_values_with_video_id df_mapping key = Inr res"
      by (auto simp: seg split: sum.splits)
    show ?thesis
    proof (cases res)
      case None
      with Cons.prems(1) False res
      have "calculate_speed_loop A df_mapping dfs data d = Inr d'"
        by (simp add: seg)
      from Cons.IH[OF this Cons.prems(2)] show ?thesis .
    next
      case (Some r)
      with Cons.prems(1) False res obtain tbl dm where
        "map_of dfs key = Some tbl"
        and inner: "speed_loop A tbl r df d = Inr dm"
        and run: "calculate_speed_loop A df_mapping dfs data dm = Inr d'"
        by (auto simp: seg split: option.splits sum.splits)
      from Cons.IH[OF run speed_loop_invariant[OF inner Cons.prems(2)]]
      show ?thesis .
    qed
  qed
qed

lemma avg_values_defined:
  "\<forall>(k, vs) \<in> set d. vs \<noteq> [] \<Longrightarrow> \<exists>avg. avg_values d = Inr avg"
  by (induction d) (auto split: sum.splits)

lemma avg_speed_values_defined:
  "\<forall>(k, vs) \<in> set d. vs \<noteq> [] \<Longrightarrow> \<exists>avg. avg_speed_values A d = Inr avg"
  by (induction d) (auto split: sum.splits)

lemma time_to_start_cross_loop_invariant:
  assumes "time_to_start_cross_loop df_mapping person_id dfs d = Inr d'"
    and "\<forall>(k, vs) \<in> set d. vs \<noteq> []"
  shows "\<forall>(k, vs) \<in> set d'. vs \<noteq> []"
  using assms
proof (induction dfs arbitrary: d)
  case Nil
  then show ?case by simp
next
  case (Cons seg dfs)
  obtain key df where seg: "seg = (key, df)" by (cases seg)
  from Cons.prems(1) obtain res where
    res: "find_values_with_video_id df_mapping key = Inr res"
    by (auto simp: seg split: sum.splits)
  show ?case
  proof (cases res)
    case None
    with Cons.prems(1) res
    have "time_to_start_cross_loop df_mapping person_id dfs d = Inr d'"
      by (simp add: seg)
    from Cons.IH[OF this Cons.prems(2)] show ?thesis .
  next
    case (Some r)
    define dc where "dc = data_cross_of df person_id"
    show ?thesis
    proof (cases "length dc = 0")
      case True
      with Cons.prems(1) res Some
      have "time_to_start_cross_loop df_mapping person_id dfs d = Inr d'"
        by (simp add: seg dc_def)
      from Cons.IH[OF this Cons.prems(2)] show ?thesis .
    next
      case False
      define vals where "vals = map (\<lambda>(key', value). real value / (r_fps r / 10)) dc"
      from False have ne: "vals \<noteq> []" by (simp add: vals_def)
      from Cons.prems(1) res Some False
      have run: "time_to_start_cross_loop df_mapping person_id dfs
                   (extend_values (agg_key r) vals d) = Inr d'"
        by (simp add: seg dc_def[symmetric] vals_def Let_def split: if_splits)
      have "\<forall>(k, vs) \<in> set (extend_values (agg_key r) vals d). vs \<noteq> []"
        using extend_values_entries[of "agg_key r" vals d] Cons.prems(2) ne by fastforce
      from Cons.IH[OF run this] show ?thesis .
    qed
  qed
qed







text \<open>
  A zero divisor does not stop the function. With a reference height of 0 the scale
  \<open>ppm\<close> is \<open>inf\<close>, the distance and the speed are 0, and the speed is kept; with boxes
  of height 0 the scale is 0, the distance and the speed are \<open>inf\<close>, and the speed is
  dropped.
\<close>

lemma zero_divisors_carry_on:
  "calculate_speed_of_crossing example_arith [example_row\<lparr>avg_height := 0\<rparr>]
       [(''v_0'', two_walkers)] [(''v_0'', [(1, 0.25)])] = Inr [(''A_unknown_0'', [Num 0])]"
  "calculate_speed_of_crossing example_arith [example_row\<lparr>avg_height := 16\<rparr>]
       [(''v_0'', flat_walker)] [(''v_0'', [(1, 0.25)])] = Inr []"
  by code_simp+




text \<open>
  Claim C10. Every list in the dictionaries returned by \<open>calculate_speed_of_crossing\<close>
  and \<open>time_to_start_cross\<close> is non-empty, and the means of \<open>avg_speed_of_crossing\<close> and
  \<open>avg_time_to_start_cross\<close> are then computed without a division by zero.
\<close>

theorem aggregate_lists_nonempty:
  "(calculate_speed_of_crossing A df_mapping dfs data = Inr speed_dict \<longrightarrow>
      (\<forall>key values. (key, values) \<in> set speed_dict \<longrightarrow> values \<noteq> [])
      \<and> (\<exists>avg_speed. avg_speed_of_crossing A df_mapping dfs data = Inr avg_speed))
   \<and> (time_to_start_cross df_mapping dfs 0 = Inr time_dict \<longrightarrow>
      (\<forall>key values. (key, values) \<in> set time_dict \<longrightarrow> values \<noteq> [])
      \<and> (\<exists>avg_time. avg_time_to_start_cross df_mapping dfs = Inr avg_time))"
proof -
  have speed: "(\<forall>key values. (key, values) \<in> set speed_dict \<longrightarrow> values \<noteq> [])
      \<and> (\<exists>avg_speed. avg_speed_of_crossing A df_mapping dfs data = Inr avg_speed)"
    if r: "calculate_speed_of_crossing A df_mapping dfs data = Inr speed_dict"
  proof -
    from r have run: "calculate_speed_loop A df_mapping dfs data [] = Inr speed_dict"
      by (simp add: calculate_speed_of_crossing_def)
    have "\<forall>(k, vs) \<in> set speed_dict. vs \<noteq> [] \<and> (\<forall>v \<in> set vs. \<not> np_gt v (Num speed_limit))"
      using calculate_speed_loop_invariant[OF run] by simp
    then have ne: "\<forall>(k, vs) \<in> set speed_dict. vs \<noteq> []" by blast
    from avg_speed_values_defined[OF ne] r show ?thesis
      using ne by (auto simp: avg_speed_of_crossing_def)
  qed
  have time: "(\<forall>key values. (key, values) \<in> set time_dict \<longrightarrow> values \<noteq> [])
      \<and> (\<exists>avg_time. avg_time_to_start_cross df_mapping dfs = Inr avg_time)"
    if r: "time_to_start_cross df_mapping dfs 0 = Inr time_dict"
  proof -
    from r have run: "time_to_start_cross_loop df_mapping 0 dfs [] = Inr time_dict"
      by (simp add: time_to_start_cross_def)
    have ne: "\<forall>(k, vs) \<in> set time_dict. vs \<noteq> []"
      using time_to_start_cross_loop_invariant[OF run] by simp
    from avg_values_defined[OF ne] r show ?thesis
      using ne by (auto simp: avg_time_to_start_cross_def)
  qed
  from speed time show ?thesis by blast
qed

theorem aggregate_lists_nonempty_witness:
  "calculate_speed_of_crossing example_arith [example_row\<lparr>avg_height := 16\<rparr>]
       [(''v_0'', two_walkers)] [(''v_0'', [(1, 0.25), (2, 0.125)])]
     = Inr [(''A_unknown_0'', [Num speed_limit])]
   \<and> (\<exists>avg_speed. avg_speed_of_crossing example_arith [example_row\<lparr>avg_height := 16\<rparr>]
          [(''v_0'', two_walkers)] [(''v_0'', [(1, 0.25), (2, 0.125)])] = Inr avg_speed)
   \<and> time_to_start_cross [example_row] [(''v_0'', waits_then_moves 0.4 0.8)] 0
        = Inr [(''A_unknown_0'', [3])]
   \<and> (\<exists>avg_time. avg_time_to_start_cross [example_row]
          [(''v_0'', waits_then_moves 0.4 0.8)] = Inr avg_time)"
proof -
  have a: "calculate_speed_of_crossing example_arith [example_row\<lparr>avg_height := 16\<rparr>]
       [(''v_0'', two_walkers)] [(''v_0'', [(1, 0.25), (2, 0.125)])]
     = Inr [(''A_unknown_0'', [Num speed_limit])]"
    by code_simp
  have b: "time_to_start_cross [example_row] [(''v_0'', waits_then_moves 0.4 0.8)] 0
        = Inr [(''A_unknown_0'', [3])]"
    by code_simp
  from aggregate_lists_nonempty[of example_arith "[example_row\<lparr>avg_height := 16\<rparr>]"
      "[(''v_0'', two_walkers)]" "[(''v_0'', [(1, 0.25), (2, 0.125)])]"
      "[(''A_unknown_0'', [Num speed_limit])]" "[]"] a
  have c: "\<exists>avg_speed. avg_speed_of_crossing example_arith [example_row\<lparr>avg_height := 16\<rparr>]
          [(''v_0'', two_walkers)] [(''v_0'', [(1, 0.25), (2, 0.125)])] = Inr avg_speed"
    by blast
  from aggregate_lists_nonempty[of example_arith "[example_row]"
      "[(''v_0'', waits_then_moves 0.4 0.8)]" "[]" "[]" "[(''A_unknown_0'', [3])]"] b
  have d: "\<exists>avg_time. avg_time_to_start_cross [example_row]
          [(''v_0'', waits_then_moves 0.4 0.8)] = Inr avg_time"
    by blast
  from a b c d show ?thesis by blast
qed

subsection \<open>Tracks approaching from the right\<close>

lemma right_to_left_never_stable:
  "\<not> initial_x < 0.5 \<Longrightarrow> 0 < margin
   \<Longrightarrow> stride_scan initial_x x_values margin steps c False = None"
  by (induction steps arbitrary: c) auto

lemma right_to_left_start_of_crossing:
  assumes "group_data \<noteq> []" and "\<not> X_center (hd group_data) < 0.5"
    and "0 < mean (map Height group_data)"
  shows "start_of_crossing group_data = None"
proof -
  from assms(1) have "hd (map X_center group_data) = X_center (hd group_data)"
    by (simp add: hd_map)
  with assms(2,3) show ?thesis
    by (simp add: start_of_crossing_def Let_def right_to_left_never_stable)
qed

text \<open>
  Claim C7 says that the stability band is \<open>+/-(0.1 * mean height)\<close> around the current
  position for both approach directions. For a track that starts at \<open>0.5\<close> or to the
  right of it the code tests \<open>x[i] - margin \<ge> x[i+10] \<ge> x[i] + margin\<close>, which no
  position satisfies when the margin is positive, so no such track is ever recorded.
  A pedestrian who stands at 0.4 for 40 rows and then leaves is recorded with 3
  strides; the mirrored one, standing at 0.6, is not.
\<close>

theorem right_to_left_start_not_recorded:
  "time_to_start_cross [example_row] [(''v_0'', waits_then_moves 0.4 0.8)] 0
     = Inr [(''A_unknown_0'', [3])]
   \<and> time_to_start_cross [example_row] [(''v_0'', waits_then_moves 0.6 0.2)] 0 = Inr []"
  by code_simp

end
